theory Spec2Isabelle
  imports Complex_Main
begin

section \<open>Numbers, errors and arrays of the analysis script\<close>

text \<open>
  The script \<^verbatim>\<open>MAIN.cjs\<close> computes with JavaScript numbers, which are doubles. They
  are embedded as \<^typ>\<open>real\<close>. The sums and quotients of the statistics (lines 182 and
  205) are rounded as JavaScript rounds them, to the nearest double, since a mean can
  leave the range of its entries by that rounding; the arithmetic of the
  normalisations and of the scores is exact. The script leaves the finite numbers at
  one place of its own arithmetic only, the division \<^verbatim>\<open>0 / 0\<close> of the band energies,
  and reads \<^verbatim>\<open>undefined\<close> when it indexes an array past its end; both are written out:
  \<^item> \<open>jsnum\<close> is a finite number or \<^verbatim>\<open>NaN\<close>;
  \<^item> an array read is an \<open>option\<close>, \<open>None\<close> standing for \<^verbatim>\<open>undefined\<close>;
  \<^item> a call that throws returns \<open>None\<close> (inside a \<^verbatim>\<open>try\<close>) or makes the
    enclosing function return \<open>Inl\<close> of the error (outside of one).

  The decoding of the file (lines 5-17) and the printing of the five lines (lines
  287-301) are outside the model, the bar of \<^verbatim>\<open>createBar\<close> apart.
\<close>

datatype jsnum = Num real | NaN

datatype error = ComputationError | RangeError

text \<open>\<^verbatim>\<open>arr[i]\<close> for a non-negative integer index.\<close>

definition at_index :: "'a list \<Rightarrow> nat \<Rightarrow> 'a option" where
  "at_index xs i = (if i < length xs then Some (xs ! i) else None)"

text \<open>
  \<^verbatim>\<open>arr.slice(start, end)\<close>: a negative bound counts from the end, both bounds are
  cut to the array, and an empty range gives the empty array.
\<close>

definition slice :: "'a list \<Rightarrow> int \<Rightarrow> int \<Rightarrow> 'a list" where
  "slice xs start fin =
     (let len = int (length xs);
          k = (if start < 0 then max (len + start) 0 else min start len);
          final = (if fin < 0 then max (len + fin) 0 else min fin len)
      in take (nat (final - k)) (drop (nat k) xs))"

text \<open>\<^verbatim>\<open>arr.slice(start)\<close>: up to the end of the array.\<close>

definition sliceFrom :: "'a list \<Rightarrow> int \<Rightarrow> 'a list" where
  "sliceFrom xs start = slice xs start (int (length xs))"

text \<open>\<^verbatim>\<open>Math.floor\<close> and \<^verbatim>\<open>Math.round\<close> (ties go up) on finite numbers.\<close>

definition Math_floor :: "real \<Rightarrow> int" where
  "Math_floor x = \<lfloor>x\<rfloor>"

definition Math_round :: "real \<Rightarrow> int" where
  "Math_round x = \<lfloor>x + 1 / 2\<rfloor>"

section \<open>Rounding to doubles\<close>

text \<open>
  The result of an arithmetic operation on doubles is the exact result rounded to the
  nearest double, a tie going to the double with the even significand. A double in the
  binade of exponent \<open>e\<close> (from \<open>2 powi e\<close> up to \<open>2 powi (e + 1)\<close>) is a multiple of
  \<open>2 powi (e - 52)\<close>; below the least normal exponent -1022 the spacing stays that of
  -1022. Results beyond the largest double, which JavaScript turns into
  \<^verbatim>\<open>Infinity\<close>, are outside the model.
\<close>

definition roundHalfEven :: "real \<Rightarrow> int" where
  "roundHalfEven y =
     (let f = \<lfloor>y\<rfloor>; r = y - real_of_int f
      in if r < 1 / 2 then f
         else if r > 1 / 2 then f + 1
         else if even f then f else f + 1)"

text \<open>The exponent of the binade of a positive number.\<close>

function binade :: "real \<Rightarrow> int" where
  "binade x =
     (if x \<le> 0 then 0
      else if 2 \<le> x then binade (x / 2) + 1
      else if x < 1 then binade (x * 2) - 1
      else 0)"
  by pat_completeness auto
termination
proof (relation "measure (\<lambda>x. nat \<bar>\<lfloor>log 2 x\<rfloor>\<bar>)")
  show "wf (measure (\<lambda>x. nat \<bar>\<lfloor>log 2 x\<rfloor>\<bar>))" by simp
next
  fix x :: real
  assume "\<not> x \<le> 0" and big: "2 \<le> x"
  then have pos: "0 < x" by simp
  have "log 2 (x / 2) = log 2 x - 1"
    using pos by (simp add: log_divide)
  then have step: "\<lfloor>log 2 (x / 2)\<rfloor> = \<lfloor>log 2 x\<rfloor> - 1" by simp
  have "1 \<le> log 2 x"
    using big pos by (simp add: le_log_iff)
  then have "1 \<le> \<lfloor>log 2 x\<rfloor>" by (simp add: le_floor_iff)
  then have "nat \<bar>\<lfloor>log 2 (x / 2)\<rfloor>\<bar> < nat \<bar>\<lfloor>log 2 x\<rfloor>\<bar>"
    unfolding step by linarith
  then show "(x / 2, x) \<in> measure (\<lambda>x. nat \<bar>\<lfloor>log 2 x\<rfloor>\<bar>)"
    unfolding in_measure .
next
  fix x :: real
  assume "\<not> x \<le> 0" and "\<not> 2 \<le> x" and small: "x < 1"
  then have pos: "0 < x" by simp
  have "log 2 (x * 2) = log 2 x + 1"
    using pos by (simp add: log_mult)
  then have step: "\<lfloor>log 2 (x * 2)\<rfloor> = \<lfloor>log 2 x\<rfloor> + 1" by simp
  have "log 2 x < 0"
    using small pos by simp
  then have "\<lfloor>log 2 x\<rfloor> < 0" by (simp add: floor_less_iff)
  then have "nat \<bar>\<lfloor>log 2 (x * 2)\<rfloor>\<bar> < nat \<bar>\<lfloor>log 2 x\<rfloor>\<bar>"
    unfolding step by linarith
  then show "(x * 2, x) \<in> measure (\<lambda>x. nat \<bar>\<lfloor>log 2 x\<rfloor>\<bar>)"
    unfolding in_measure .
qed

declare binade.simps [simp del]

text \<open>The spacing of the doubles around \<open>x\<close>, and \<open>x\<close> rounded to a double.\<close>

definition ulp :: "real \<Rightarrow> real" where
  "ulp x = 2 powi (max (binade \<bar>x\<bar>) (- 1022) - 52)"

definition fl :: "real \<Rightarrow> real" where
  "fl x = real_of_int (roundHalfEven (x / ulp x)) * ulp x"

section \<open>Statistics of a series\<close>

text \<open>
  \<^verbatim>\<open>calculateStats\<close> (lines 179-186). The object returned for the empty array has the
  fields \<^verbatim>\<open>mean, std, median, percentile90\<close>, the one for a non-empty array only
  \<^verbatim>\<open>mean\<close> and \<^verbatim>\<open>percentile90\<close>; a missing field is \<open>None\<close>.
  \<^verbatim>\<open>[...arr].sort((a, b) => a - b)\<close> sorts numbers in ascending order. The mean is
  computed in doubles: \<^verbatim>\<open>reduce\<close> rounds every partial sum, and the quotient is
  rounded. The product \<^verbatim>\<open>sorted.length * 0.9\<close> is taken exactly.
\<close>

record stats =
  mean :: real
  std :: "real option"
  median :: "real option"
  percentile90 :: "real option"

definition calculateStats :: "real list \<Rightarrow> stats" where
  "calculateStats arr =
     (if length arr = 0
      then \<lparr>mean = 0, std = Some 0, median = Some 0, percentile90 = Some 0\<rparr>
      else
        (let mean = fl (foldl (\<lambda>a b. fl (a + b)) 0 arr / real (length arr));
             sorted = sort arr;
             percentile90 = at_index sorted (nat (Math_floor (real (length sorted) * 0.9)))
         in \<lparr>mean = mean, std = None, median = None, percentile90 = percentile90\<rparr>))"

section \<open>The feature library\<close>

text \<open>
  The feature computations come from the library \<^verbatim>\<open>essentia.js\<close>, which is not part
  of the repository: the script is verified for every library. Each call either
  returns its result (the field the script reads from it) or throws.

  A vector of the library holds numbers, but it is an object of the library and not a
  JavaScript array: the script turns an array into a vector with
  \<^verbatim>\<open>arrayToVector\<close> (line 46) and reads the number of entries of a vector with its
  method \<^verbatim>\<open>size()\<close> (line 163).
\<close>

datatype vector = Vector "real list"

fun vector_size :: "vector \<Rightarrow> nat" where
  "vector_size (Vector entries) = length entries"

text \<open>
  \<^verbatim>\<open>Array.from(v)\<close> for a vector \<open>v\<close> of the library (line 132). A vector can not be
  iterated and has no property \<^verbatim>\<open>length\<close>, so \<^verbatim>\<open>Array.from\<close> reads the length 0
  and returns the empty array, whatever the vector holds.
\<close>

definition Array_from :: "vector \<Rightarrow> real list" where
  "Array_from v = []"

text \<open>
  The optional arguments of the peak picking, in the order of the call of lines
  155-162: maxPeaks, maxFreq, minFreq, magnitudeThreshold, orderBy.
\<close>

type_synonym peakParams = "nat \<times> real \<times> real \<times> real \<times> string"

record essentia =
  arrayToVector :: "real list \<Rightarrow> vector option"
  Windowing :: "vector \<Rightarrow> bool \<Rightarrow> int \<Rightarrow> string \<Rightarrow> vector option"
  Spectrum :: "vector \<Rightarrow> vector option"
  HFC :: "vector \<Rightarrow> real option"
  Centroid :: "vector \<Rightarrow> real option"
  SpectralComplexity :: "vector \<Rightarrow> real option"
  SpectralPeaks :: "vector \<Rightarrow> peakParams option \<Rightarrow> (vector \<times> vector) option"
  Dissonance :: "vector \<Rightarrow> vector \<Rightarrow> real option"
  PitchSalience :: "vector \<Rightarrow> real option"
  Inharmonicity :: "vector \<Rightarrow> vector \<Rightarrow> real option"
  Entropy :: "vector \<Rightarrow> real option"
  RollOff :: "vector \<Rightarrow> real \<Rightarrow> real option"
  Loudness :: "vector \<Rightarrow> real option"
  ZeroCrossingRate :: "vector \<Rightarrow> real option"
  Flux :: "vector \<Rightarrow> vector \<Rightarrow> real option"
  Flatness :: "vector \<Rightarrow> real option"
  Energy :: "vector \<Rightarrow> real option"
  DynamicComplexity :: "vector \<Rightarrow> real option"

section \<open>The feature series\<close>

text \<open>
  The seventeen arrays of lines 26-42. Only the two band-energy series can hold
  \<^verbatim>\<open>NaN\<close>: their entries are quotients the script computes itself.
\<close>

record series =
  hfcValues :: "real list"
  spectralCentroids :: "real list"
  spectralComplexities :: "real list"
  dissonances :: "real list"
  pitchSaliences :: "real list"
  inharmonicities :: "real list"
  spectralEntropies :: "real list"
  spectralRolloffs :: "real list"
  loudnesses :: "real list"
  zeroCrossingRates :: "real list"
  dynamicComplexities :: "real list"
  spectralFluxes :: "real list"
  lowFreqEnergies :: "jsnum list"
  highFreqEnergies :: "jsnum list"
  spectralFlatnesses :: "real list"
  spectralPeakCounts :: "real list"
  frameSilences :: "real list"

definition emptySeries :: series where
  "emptySeries =
     \<lparr>hfcValues = [], spectralCentroids = [], spectralComplexities = [], dissonances = [],
      pitchSaliences = [], inharmonicities = [], spectralEntropies = [],
      spectralRolloffs = [], loudnesses = [], zeroCrossingRates = [],
      dynamicComplexities = [], spectralFluxes = [], lowFreqEnergies = [],
      highFreqEnergies = [], spectralFlatnesses = [], spectralPeakCounts = [],
      frameSilences = []\<rparr>"

definition frameSize :: int where
  "frameSize = 4096"

definition hopSize :: int where
  "hopSize = 2048"

section \<open>The body of the frame loop\<close>

text \<open>
  One definition for each \<^verbatim>\<open>try { ... } catch (e) {}\<close> of lines 56-170, in the order
  of the source. A call that throws leaves the block: nothing is pushed.
\<close>

definition tryHFC :: "essentia \<Rightarrow> vector \<Rightarrow> series \<Rightarrow> series" where
  "tryHFC E spectrum s =
     (case HFC E spectrum of
        None \<Rightarrow> s
      | Some hfc \<Rightarrow> s\<lparr>hfcValues := hfcValues s @ [hfc]\<rparr>)"

definition tryCentroid :: "essentia \<Rightarrow> real \<Rightarrow> vector \<Rightarrow> series \<Rightarrow> series" where
  "tryCentroid E sampleRate spectrum s =
     (case Centroid E spectrum of
        None \<Rightarrow> s
      | Some centroid \<Rightarrow>
          s\<lparr>spectralCentroids := spectralCentroids s @ [(centroid * sampleRate) / 2]\<rparr>)"

definition tryComplexity :: "essentia \<Rightarrow> vector \<Rightarrow> series \<Rightarrow> series" where
  "tryComplexity E spectrum s =
     (case SpectralComplexity E spectrum of
        None \<Rightarrow> s
      | Some complexity \<Rightarrow>
          s\<lparr>spectralComplexities := spectralComplexities s @ [complexity]\<rparr>)"

definition tryDissonance :: "essentia \<Rightarrow> vector \<Rightarrow> series \<Rightarrow> series" where
  "tryDissonance E spectrum s =
     (case SpectralPeaks E spectrum None of
        None \<Rightarrow> s
      | Some (frequencies, magnitudes) \<Rightarrow>
          (case Dissonance E frequencies magnitudes of
             None \<Rightarrow> s
           | Some dissonance \<Rightarrow> s\<lparr>dissonances := dissonances s @ [dissonance]\<rparr>))"

definition trySalience :: "essentia \<Rightarrow> vector \<Rightarrow> series \<Rightarrow> series" where
  "trySalience E spectrum s =
     (case PitchSalience E spectrum of
        None \<Rightarrow> s
      | Some salience \<Rightarrow> s\<lparr>pitchSaliences := pitchSaliences s @ [salience]\<rparr>)"

definition tryInharmonicity :: "essentia \<Rightarrow> vector \<Rightarrow> series \<Rightarrow> series" where
  "tryInharmonicity E spectrum s =
     (case SpectralPeaks E spectrum None of
        None \<Rightarrow> s
      | Some (frequencies, magnitudes) \<Rightarrow>
          (case Inharmonicity E frequencies magnitudes of
             None \<Rightarrow> s
           | Some inharmonicity \<Rightarrow>
               s\<lparr>inharmonicities := inharmonicities s @ [inharmonicity]\<rparr>))"

definition tryEntropy :: "essentia \<Rightarrow> vector \<Rightarrow> series \<Rightarrow> series" where
  "tryEntropy E spectrum s =
     (case Entropy E spectrum of
        None \<Rightarrow> s
      | Some entropy \<Rightarrow> s\<lparr>spectralEntropies := spectralEntropies s @ [entropy]\<rparr>)"

definition tryRolloff :: "essentia \<Rightarrow> real \<Rightarrow> vector \<Rightarrow> series \<Rightarrow> series" where
  "tryRolloff E sampleRate spectrum s =
     (case RollOff E spectrum 0.85 of
        None \<Rightarrow> s
      | Some rollOff \<Rightarrow>
          s\<lparr>spectralRolloffs := spectralRolloffs s @ [(rollOff * sampleRate) / 2]\<rparr>)"

definition tryLoudness :: "essentia \<Rightarrow> vector \<Rightarrow> series \<Rightarrow> series" where
  "tryLoudness E frameVector s =
     (case Loudness E frameVector of
        None \<Rightarrow> s
      | Some loudness \<Rightarrow> s\<lparr>loudnesses := loudnesses s @ [loudness]\<rparr>)"

definition tryZeroCrossingRate :: "essentia \<Rightarrow> vector \<Rightarrow> series \<Rightarrow> series" where
  "tryZeroCrossingRate E frameVector s =
     (case ZeroCrossingRate E frameVector of
        None \<Rightarrow> s
      | Some zcr \<Rightarrow> s\<lparr>zeroCrossingRates := zeroCrossingRates s @ [zcr]\<rparr>)"

text \<open>
  Lines 114-128: the flux block runs only for \<^verbatim>\<open>i > 0\<close>, and computes the spectrum of
  the frame one hop earlier again from the samples.
\<close>

definition tryFlux :: "essentia \<Rightarrow> real list \<Rightarrow> int \<Rightarrow> vector \<Rightarrow> series \<Rightarrow> series" where
  "tryFlux E audio i spectrum s =
     (if i > 0 then
        (case arrayToVector E (slice audio (i - hopSize) (i - hopSize + frameSize)) of
           None \<Rightarrow> s
         | Some prevVector \<Rightarrow>
             (case Windowing E prevVector True frameSize ''blackmanharris62'' of
                None \<Rightarrow> s
              | Some prevWindowed \<Rightarrow>
                  (case Spectrum E prevWindowed of
                     None \<Rightarrow> s
                   | Some prevSpectrum \<Rightarrow>
                       (case Flux E prevSpectrum spectrum of
                          None \<Rightarrow> s
                        | Some flux \<Rightarrow>
                            s\<lparr>spectralFluxes := spectralFluxes s @ [flux]\<rparr>))))
      else s)"

text \<open>
  Lines 138-141: \<^verbatim>\<open>freqs.reduce((a, b) => a + b * b, 0) / freqs.length\<close>. On the empty
  array \<^verbatim>\<open>reduce\<close> returns its initial value 0, and \<^verbatim>\<open>0 / 0\<close> is \<^verbatim>\<open>NaN\<close>: the
  division does not throw.
\<close>

definition meanSquare :: "real list \<Rightarrow> jsnum" where
  "meanSquare freqs =
     (let total = foldl (\<lambda>a b. a + b * b) 0 freqs
      in if length freqs = 0 then NaN else Num (total / real (length freqs)))"

text \<open>
  Lines 132-141: the two energies the block computes from the spectrum of the frame,
  \<^verbatim>\<open>lowEnergy\<close> and \<^verbatim>\<open>highEnergy\<close>.
\<close>

definition bandEnergies :: "vector \<Rightarrow> jsnum \<times> jsnum" where
  "bandEnergies spectrum =
     (let spectrumArray = Array_from spectrum;
          splitPoint = Math_floor (real (length spectrumArray) * 0.1);
          lowFreqs = slice spectrumArray 0 splitPoint;
          highFreqs = sliceFrom spectrumArray splitPoint;
          lowEnergy = meanSquare lowFreqs;
          highEnergy = meanSquare highFreqs
      in (lowEnergy, highEnergy))"

text \<open>
  Lines 131-145: the energies are computed and pushed. No call of this block can
  throw: \<^verbatim>\<open>Array.from\<close>, \<^verbatim>\<open>slice\<close>, \<^verbatim>\<open>reduce\<close> with an initial value, the
  division and \<^verbatim>\<open>push\<close> all return.
\<close>

definition tryBandEnergy :: "vector \<Rightarrow> series \<Rightarrow> series" where
  "tryBandEnergy spectrum s =
     (case bandEnergies spectrum of
        (lowEnergy, highEnergy) \<Rightarrow>
          s\<lparr>lowFreqEnergies := lowFreqEnergies s @ [lowEnergy],
            highFreqEnergies := highFreqEnergies s @ [highEnergy]\<rparr>)"

definition tryFlatness :: "essentia \<Rightarrow> vector \<Rightarrow> series \<Rightarrow> series" where
  "tryFlatness E spectrum s =
     (case Flatness E spectrum of
        None \<Rightarrow> s
      | Some flatness \<Rightarrow> s\<lparr>spectralFlatnesses := spectralFlatnesses s @ [flatness]\<rparr>)"

definition tryPeakCount :: "essentia \<Rightarrow> real \<Rightarrow> vector \<Rightarrow> series \<Rightarrow> series" where
  "tryPeakCount E sampleRate spectrum s =
     (case SpectralPeaks E spectrum
             (Some (50, sampleRate / 2, 20, 0.000001, ''magnitude'')) of
        None \<Rightarrow> s
      | Some (frequencies, magnitudes) \<Rightarrow>
          s\<lparr>spectralPeakCounts :=
              spectralPeakCounts s @ [real (vector_size frequencies)]\<rparr>)"

definition trySilence :: "essentia \<Rightarrow> vector \<Rightarrow> series \<Rightarrow> series" where
  "trySilence E frameVector s =
     (case Energy E frameVector of
        None \<Rightarrow> s
      | Some energy \<Rightarrow>
          s\<lparr>frameSilences := frameSilences s @ [if energy < 0.001 then 1 else 0]\<rparr>)"

text \<open>The fifteen blocks of one pass through the loop body, in source order.\<close>

definition frameFeatures ::
  "essentia \<Rightarrow> real list \<Rightarrow> real \<Rightarrow> int \<Rightarrow> vector \<Rightarrow> vector \<Rightarrow> series \<Rightarrow> series" where
  "frameFeatures E audio sampleRate i frameVector spectrum s =
     fold (\<lambda>block. block)
       [tryHFC E spectrum,
        tryCentroid E sampleRate spectrum,
        tryComplexity E spectrum,
        tryDissonance E spectrum,
        trySalience E spectrum,
        tryInharmonicity E spectrum,
        tryEntropy E spectrum,
        tryRolloff E sampleRate spectrum,
        tryLoudness E frameVector,
        tryZeroCrossingRate E frameVector,
        tryFlux E audio i spectrum,
        tryBandEnergy spectrum,
        tryFlatness E spectrum,
        tryPeakCount E sampleRate spectrum,
        trySilence E frameVector]
       s"

text \<open>
  Lines 45-54 stand outside every \<^verbatim>\<open>try\<close>: when the conversion, the windowing or the
  spectrum of the frame throws, the exception leaves the loop and the function.
\<close>

definition frameTransforms :: "essentia \<Rightarrow> real list \<Rightarrow> int \<Rightarrow> (vector \<times> vector) option" where
  "frameTransforms E audio i =
     (let frame = slice audio i (i + frameSize)
      in case arrayToVector E frame of
           None \<Rightarrow> None
         | Some frameVector \<Rightarrow>
             (case Windowing E frameVector True frameSize ''blackmanharris62'' of
                None \<Rightarrow> None
              | Some windowed \<Rightarrow>
                  (case Spectrum E windowed of
                     None \<Rightarrow> None
                   | Some spectrum \<Rightarrow> Some (frameVector, spectrum))))"

definition processFrame ::
  "essentia \<Rightarrow> real list \<Rightarrow> real \<Rightarrow> int \<Rightarrow> series \<Rightarrow> error + series" where
  "processFrame E audio sampleRate i s =
     (case frameTransforms E audio i of
        None \<Rightarrow> Inl ComputationError
      | Some (frameVector, spectrum) \<Rightarrow>
          Inr (frameFeatures E audio sampleRate i frameVector spectrum s))"

section \<open>The frame loop and the collection\<close>

text \<open>
  Line 44: \<^verbatim>\<open>for (let i = 0; i < audio.length - frameSize; i += hopSize)\<close>. The loop
  is a recursion on the offset, which ends because the offset grows by the hop.
\<close>

function frameLoop ::
  "essentia \<Rightarrow> real list \<Rightarrow> real \<Rightarrow> int \<Rightarrow> series \<Rightarrow> error + series" where
  "frameLoop E audio sampleRate i s =
     (if i < int (length audio) - frameSize then
        (case processFrame E audio sampleRate i s of
           Inl e \<Rightarrow> Inl e
         | Inr s' \<Rightarrow> frameLoop E audio sampleRate (i + hopSize) s')
      else Inr s)"
  by pat_completeness auto
termination
  by (relation "measure (\<lambda>(E, audio, sampleRate, i, s). nat (int (length audio) - frameSize - i))")
     (auto simp: hopSize_def)

declare frameLoop.simps [simp del]

text \<open>The offsets the header of the loop runs through, from offset \<open>i\<close> on.\<close>

function frameOffsetsFrom :: "int \<Rightarrow> int \<Rightarrow> int list" where
  "frameOffsetsFrom audioLength i =
     (if i < audioLength - frameSize
      then i # frameOffsetsFrom audioLength (i + hopSize)
      else [])"
  by pat_completeness auto
termination
  by (relation "measure (\<lambda>(audioLength, i). nat (audioLength - frameSize - i))")
     (auto simp: hopSize_def)

declare frameOffsetsFrom.simps [simp del]

definition frameOffsets :: "real list \<Rightarrow> int list" where
  "frameOffsets audio = frameOffsetsFrom (int (length audio)) 0"

text \<open>The loop body run at each offset of a list, stopping at the first exception.\<close>

fun runFrames ::
  "essentia \<Rightarrow> real list \<Rightarrow> real \<Rightarrow> int list \<Rightarrow> series \<Rightarrow> error + series" where
  "runFrames E audio sampleRate [] s = Inr s"
| "runFrames E audio sampleRate (i # offsets) s =
     (case processFrame E audio sampleRate i s of
        Inl e \<Rightarrow> Inl e
      | Inr s' \<Rightarrow> runFrames E audio sampleRate offsets s')"

text \<open>Lines 173-177: the dynamic complexity of the whole buffer, once, after the loop.\<close>

definition tryDynamicComplexity :: "essentia \<Rightarrow> real list \<Rightarrow> series \<Rightarrow> series" where
  "tryDynamicComplexity E audio s =
     (case arrayToVector E audio of
        None \<Rightarrow> s
      | Some audioVector \<Rightarrow>
          (case DynamicComplexity E audioVector of
             None \<Rightarrow> s
           | Some dc \<Rightarrow> s\<lparr>dynamicComplexities := dynamicComplexities s @ [dc]\<rparr>))"

text \<open>Lines 26-177: all series of one run.\<close>

definition collect :: "essentia \<Rightarrow> real list \<Rightarrow> real \<Rightarrow> error + series" where
  "collect E audio sampleRate =
     (case frameLoop E audio sampleRate 0 emptySeries of
        Inl e \<Rightarrow> Inl e
      | Inr s \<Rightarrow> Inr (tryDynamicComplexity E audio s))"

section \<open>The scores\<close>

text \<open>Lines 203-206.\<close>

definition silenceRatio :: "real list \<Rightarrow> real" where
  "silenceRatio silences =
     (if length silences > 0
      then fl (foldl (\<lambda>a b. fl (a + b)) 0 silences / real (length silences))
      else 0)"

text \<open>Lines 208-224.\<close>

definition aggressivenessScore ::
  "stats \<Rightarrow> stats \<Rightarrow> stats \<Rightarrow> stats \<Rightarrow> stats \<Rightarrow> real list \<Rightarrow> real" where
  "aggressivenessScore hfcStats centroidStats complexityStats dissonanceStats fluxStats
       dynamics =
     (let normalizedHFC = min 100 ((mean hfcStats / 10000) * 100);
          normalizedCentroid = min 100 ((mean centroidStats / 10000) * 100);
          normalizedComplexity = min 100 ((mean complexityStats / 20) * 100);
          normalizedDissonance = min 100 (mean dissonanceStats * 200);
          normalizedFlux = min 100 (mean fluxStats * 1000);
          normalizedDynamic =
            (case dynamics of
               [] \<Rightarrow> 50
             | first # others \<Rightarrow> min 100 (first * 10))
      in normalizedHFC * 0.25 + normalizedCentroid * 0.2 + normalizedComplexity * 0.15 +
         normalizedDissonance * 0.15 + normalizedFlux * 0.15 + normalizedDynamic * 0.1)"

text \<open>Lines 226-237.\<close>

definition tonalityScore :: "stats \<Rightarrow> stats \<Rightarrow> stats \<Rightarrow> real" where
  "tonalityScore salienceStats inharmonicityStats entropyStats =
     (let normalizedSalience = min 100 (mean salienceStats * 100);
          normalizedHarmonicity = max 0 (100 - mean inharmonicityStats * 1000);
          normalizedTonalEntropy = max 0 (100 - mean entropyStats * 12)
      in normalizedSalience * 0.35 + normalizedHarmonicity * 0.35 +
         normalizedTonalEntropy * 0.2 + 0.1)"

text \<open>
  Lines 239-254. A percentile that is \<^verbatim>\<open>undefined\<close> makes \<^verbatim>\<open>peakSoftness\<close> and
  with it the score \<^verbatim>\<open>NaN\<close>.
\<close>

definition softnessScore :: "stats \<Rightarrow> stats \<Rightarrow> stats \<Rightarrow> jsnum" where
  "softnessScore rolloffStats loudnessStats zcrStats =
     (let normalizedRolloff = max 0 (100 - mean rolloffStats / 100);
          normalizedQuietness = max 0 (100 - min 100 (mean loudnessStats / 20));
          normalizedSmoothness = max 0 (100 - mean zcrStats * 200)
      in case percentile90 loudnessStats of
           None \<Rightarrow> NaN
         | Some p90 \<Rightarrow>
             (let peakSoftness = max 0 (100 - min 100 (p90 / 30))
              in Num (normalizedRolloff * 0.25 + normalizedQuietness * 0.35 +
                      normalizedSmoothness * 0.2 + peakSoftness * 0.2)))"

text \<open>
  The \<^verbatim>\<open>mean\<close> of \<^verbatim>\<open>calculateStats\<close> on a band-energy series (lines 180-182,
  199-200), whose entries can be \<^verbatim>\<open>NaN\<close>; a sum with \<^verbatim>\<open>NaN\<close> is \<^verbatim>\<open>NaN\<close>. The
  percentile of these two series is never read.
\<close>

fun plus_js :: "jsnum \<Rightarrow> jsnum \<Rightarrow> jsnum" where
  "plus_js (Num a) (Num b) = Num (fl (a + b))"
| "plus_js _ _ = NaN"

definition energyMean :: "jsnum list \<Rightarrow> jsnum" where
  "energyMean arr =
     (if length arr = 0 then Num 0
      else (case foldl plus_js (Num 0) arr of
              Num summed \<Rightarrow> Num (fl (summed / real (length arr)))
            | NaN \<Rightarrow> NaN))"

text \<open>
  Lines 256-264. The comparison \<^verbatim>\<open>totalEnergy > 0\<close> is false for \<^verbatim>\<open>NaN\<close>, so the
  default 50 also stands when a mean is not a number.
\<close>

fun highLowBalance :: "jsnum \<Rightarrow> jsnum \<Rightarrow> real" where
  "highLowBalance (Num lowEnergyMean) (Num highEnergyMean) =
     (let totalEnergy = lowEnergyMean + highEnergyMean
      in if totalEnergy > 0
         then (let highRatio = highEnergyMean / totalEnergy
               in min 100 (max 0 (highRatio * 100)))
         else 50)"
| "highLowBalance _ _ = 50"

text \<open>Lines 266-279.\<close>

definition densityScore :: "stats \<Rightarrow> real \<Rightarrow> stats \<Rightarrow> stats \<Rightarrow> real" where
  "densityScore peakCountStats silence complexityStats flatnessStats =
     (let normalizedFlatness = max 0 (100 - mean flatnessStats * 100);
          normalizedPeakCount = min 100 ((mean peakCountStats / 15) * 100);
          normalizedActivity = max 0 (100 - silence * 100);
          normalizedComplexityDensity = min 100 ((mean complexityStats / 10) * 100)
      in normalizedPeakCount * 0.35 + normalizedActivity * 0.25 +
         normalizedComplexityDensity * 0.25 + normalizedFlatness * 0.15)"

record scores =
  aggressiveness :: real
  tonality :: real
  softness :: jsnum
  balance :: real
  density :: real

text \<open>Lines 188-279: the five scores of the collected series.\<close>

definition scoresOf :: "series \<Rightarrow> scores" where
  "scoresOf s =
     (let hfcStats = calculateStats (hfcValues s);
          centroidStats = calculateStats (spectralCentroids s);
          complexityStats = calculateStats (spectralComplexities s);
          dissonanceStats = calculateStats (dissonances s);
          salienceStats = calculateStats (pitchSaliences s);
          inharmonicityStats = calculateStats (inharmonicities s);
          entropyStats = calculateStats (spectralEntropies s);
          rolloffStats = calculateStats (spectralRolloffs s);
          loudnessStats = calculateStats (loudnesses s);
          zcrStats = calculateStats (zeroCrossingRates s);
          fluxStats = calculateStats (spectralFluxes s);
          flatnessStats = calculateStats (spectralFlatnesses s);
          peakCountStats = calculateStats (spectralPeakCounts s)
      in \<lparr>aggressiveness =
            aggressivenessScore hfcStats centroidStats complexityStats dissonanceStats
              fluxStats (dynamicComplexities s),
          tonality = tonalityScore salienceStats inharmonicityStats entropyStats,
          softness = softnessScore rolloffStats loudnessStats zcrStats,
          balance =
            highLowBalance (energyMean (lowFreqEnergies s)) (energyMean (highFreqEnergies s)),
          density =
            densityScore peakCountStats (silenceRatio (frameSilences s)) complexityStats
              flatnessStats\<rparr>)"

section \<open>The bar\<close>

text \<open>
  \<^verbatim>\<open>str.repeat(count)\<close> throws a RangeError for a negative count. Lines 281-285:
  \<^verbatim>\<open>createBar\<close> repeats \<^verbatim>\<open>#\<close> first, then \<^verbatim>\<open>-\<close>.
\<close>

definition repeat :: "string \<Rightarrow> int \<Rightarrow> error + string" where
  "repeat str count =
     (if count < 0 then Inl RangeError else Inr (concat (replicate (nat count) str)))"

definition createBar :: "real \<Rightarrow> error + string" where
  "createBar score =
     (let filled = Math_round (score / 5);
          empty = 20 - filled
      in case repeat ''#'' filled of
           Inl e \<Rightarrow> Inl e
         | Inr hashes \<Rightarrow>
             (case repeat ''-'' empty of
                Inl e \<Rightarrow> Inl e
              | Inr dashes \<Rightarrow> Inr (hashes @ dashes)))"

section \<open>Notions used to state the properties\<close>

text \<open>What one \<^verbatim>\<open>try\<close> block appends: the value of a call that returned, nothing otherwise.\<close>

definition pushed :: "'a option \<Rightarrow> 'a list" where
  "pushed result = (case result of None \<Rightarrow> [] | Some v \<Rightarrow> [v])"

text \<open>A series of values in range: none is negative.\<close>

definition nonneg :: "real list \<Rightarrow> bool" where
  "nonneg xs = (\<forall>x \<in> set xs. 0 \<le> x)"

definition inRange :: "series \<Rightarrow> bool" where
  "inRange s =
     (nonneg (hfcValues s) \<and> nonneg (spectralCentroids s) \<and>
      nonneg (spectralComplexities s) \<and> nonneg (dissonances s) \<and>
      nonneg (pitchSaliences s) \<and> nonneg (inharmonicities s) \<and>
      nonneg (spectralEntropies s) \<and> nonneg (spectralRolloffs s) \<and>
      nonneg (loudnesses s) \<and> nonneg (zeroCrossingRates s) \<and>
      nonneg (dynamicComplexities s) \<and> nonneg (spectralFluxes s) \<and>
      nonneg (spectralFlatnesses s) \<and> nonneg (spectralPeakCounts s) \<and>
      nonneg (frameSilences s))"

text \<open>The double nearest to 0.1, which is what \<^verbatim>\<open>0.1\<close> denotes in JavaScript.\<close>

definition tenth :: real where
  "tenth = 3602879701896397 / 36028797018963968"

text \<open>A series for the examples: two analysed frames, all values in range.\<close>

definition sampleSeries :: series where
  "sampleSeries =
     \<lparr>hfcValues = [5000, 20000], spectralCentroids = [3000, 1000],
      spectralComplexities = [4, 30], dissonances = [0.25, 0.75],
      pitchSaliences = [0.5, 0.7], inharmonicities = [0.01, 0.2],
      spectralEntropies = [3, 12], spectralRolloffs = [2000, 15000],
      loudnesses = [600, 4000], zeroCrossingRates = [0.1, 0.9],
      dynamicComplexities = [4], spectralFluxes = [0.02],
      lowFreqEnergies = [Num 1, Num 3], highFreqEnergies = [Num 1, Num 1],
      spectralFlatnesses = [0.3, 0.5], spectralPeakCounts = [12, 50],
      frameSilences = [0, 1]\<rparr>"

text \<open>
  A feature library for the examples: conversion and windowing return their argument,
  the spectrum of every frame is \<open>sampleSpectrum\<close>, with the 2049 bins of a frame
  of 4096 samples, the high-frequency content and the inharmonicity always throw,
  every other feature is a constant.
\<close>

definition sampleSpectrum :: vector where
  "sampleSpectrum = Vector (replicate 2049 1)"

definition sampleEssentia :: essentia where
  "sampleEssentia =
     \<lparr>arrayToVector = (\<lambda>a. Some (Vector a)),
      Windowing = (\<lambda>v normalized size type. Some v),
      Spectrum = (\<lambda>v. Some sampleSpectrum),
      HFC = (\<lambda>v. None),
      Centroid = (\<lambda>v. Some 0.5),
      SpectralComplexity = (\<lambda>v. Some 3),
      SpectralPeaks = (\<lambda>v params. Some (Vector [100, 200], Vector [1, 2])),
      Dissonance = (\<lambda>f m. Some 0.25),
      PitchSalience = (\<lambda>v. Some 0.5),
      Inharmonicity = (\<lambda>f m. None),
      Entropy = (\<lambda>v. Some 4),
      RollOff = (\<lambda>v cutoff. Some 0.25),
      Loudness = (\<lambda>v. Some 10),
      ZeroCrossingRate = (\<lambda>v. Some 0.125),
      Flux = (\<lambda>u v. Some 0.02),
      Flatness = (\<lambda>v. Some 0.5),
      Energy = (\<lambda>v. Some 0),
      DynamicComplexity = (\<lambda>v. Some 2)\<rparr>"

definition sampleAudio :: "real list" where
  "sampleAudio = replicate 10000 0"

text \<open>
  The frame vector and the spectrum of the frame at offset \<open>i\<close>, when lines 45-54
  return them.
\<close>

definition frameVectorAt :: "essentia \<Rightarrow> real list \<Rightarrow> int \<Rightarrow> vector" where
  "frameVectorAt E audio i =
     (case frameTransforms E audio i of
        None \<Rightarrow> Vector []
      | Some (frameVector, spectrum) \<Rightarrow> frameVector)"

definition spectrumAt :: "essentia \<Rightarrow> real list \<Rightarrow> int \<Rightarrow> vector" where
  "spectrumAt E audio i =
     (case frameTransforms E audio i of
        None \<Rightarrow> Vector []
      | Some (frameVector, spectrum) \<Rightarrow> spectrum)"

section \<open>Properties of the rounding\<close>

lemma ulp_pos: "0 < ulp x"
  by (simp add: ulp_def)

lemma roundHalfEven_nonneg: "0 \<le> y \<Longrightarrow> 0 \<le> roundHalfEven y"
  by (auto simp: roundHalfEven_def Let_def)

lemma fl_nonneg: "0 \<le> x \<Longrightarrow> 0 \<le> fl x"
  using ulp_pos [of x] by (simp add: fl_def roundHalfEven_nonneg)

lemma fl_zero: "fl 0 = 0"
  by (simp add: fl_def roundHalfEven_def)

lemma fl_eq:
  assumes "ulp x = u" and "x / u = y" and "roundHalfEven y = m"
  shows "fl x = real_of_int m * u"
  using assms by (simp add: fl_def)

lemma foldl_fl_nonneg:
  assumes "0 \<le> a" and "nonneg xs"
  shows "0 \<le> foldl (\<lambda>a b. fl (a + b)) a xs"
  using assms
proof (induction xs arbitrary: a)
  case Nil
  then show ?case by simp
next
  case (Cons x xs)
  have "0 \<le> a + x" using Cons.prems by (simp add: nonneg_def)
  then have "0 \<le> fl (a + x)" by (rule fl_nonneg)
  moreover have "nonneg xs" using Cons.prems by (simp add: nonneg_def)
  ultimately show ?case using Cons.IH by simp
qed

text \<open>Small integers are doubles.\<close>

lemma fl_small:
  "fl 2 = 2" "fl 3 = 3" "fl 4 = 4" "fl 6 = 6"
proof -
  have "fl 2 = real_of_int 4503599627370496 * (1 / 2 ^ 51)"
  proof (rule fl_eq)
    show "ulp 2 = 1 / 2 ^ 51"
      by (simp add: ulp_def binade.simps power_int_def power_one_over)
    show "2 / (1 / 2 ^ 51) = (4503599627370496 :: real)" by simp
    show "roundHalfEven 4503599627370496 = 4503599627370496"
      by (simp add: roundHalfEven_def)
  qed
  then show "fl 2 = 2" by simp
  have "fl 3 = real_of_int 6755399441055744 * (1 / 2 ^ 51)"
  proof (rule fl_eq)
    show "ulp 3 = 1 / 2 ^ 51"
      by (simp add: ulp_def binade.simps power_int_def power_one_over)
    show "3 / (1 / 2 ^ 51) = (6755399441055744 :: real)" by simp
    show "roundHalfEven 6755399441055744 = 6755399441055744"
      by (simp add: roundHalfEven_def)
  qed
  then show "fl 3 = 3" by simp
  have "fl 4 = real_of_int 4503599627370496 * (1 / 2 ^ 50)"
  proof (rule fl_eq)
    show "ulp 4 = 1 / 2 ^ 50"
      by (simp add: ulp_def binade.simps power_int_def power_one_over)
    show "4 / (1 / 2 ^ 50) = (4503599627370496 :: real)" by simp
    show "roundHalfEven 4503599627370496 = 4503599627370496"
      by (simp add: roundHalfEven_def)
  qed
  then show "fl 4 = 4" by simp
  have "fl 6 = real_of_int 6755399441055744 * (1 / 2 ^ 50)"
  proof (rule fl_eq)
    show "ulp 6 = 1 / 2 ^ 50"
      by (simp add: ulp_def binade.simps power_int_def power_one_over)
    show "6 / (1 / 2 ^ 50) = (6755399441055744 :: real)" by simp
    show "roundHalfEven 6755399441055744 = 6755399441055744"
      by (simp add: roundHalfEven_def)
  qed
  then show "fl 6 = 6" by simp
qed

text \<open>
  The double \<open>tenth\<close> added three times and divided by 3, as line 182 does: the
  third sum is a tie that goes up, and the quotient is the double after \<open>tenth\<close>.
\<close>

lemma fl_tenth: "fl tenth = tenth"
proof -
  have "fl tenth = real_of_int 7205759403792794 * (1 / 2 ^ 56)"
  proof (rule fl_eq)
    show "ulp tenth = 1 / 2 ^ 56"
      by (simp add: tenth_def ulp_def binade.simps power_int_def power_one_over)
    show "tenth / (1 / 2 ^ 56) = (7205759403792794 :: real)" by (simp add: tenth_def)
    show "roundHalfEven 7205759403792794 = 7205759403792794"
      by (simp add: roundHalfEven_def)
  qed
  then show ?thesis by (simp add: tenth_def)
qed

lemma fl_two_tenths: "fl (2 * tenth) = 3602879701896397 / 18014398509481984"
proof -
  have "fl (2 * tenth) = real_of_int 7205759403792794 * (1 / 2 ^ 55)"
  proof (rule fl_eq)
    show "ulp (2 * tenth) = 1 / 2 ^ 55"
      by (simp add: tenth_def ulp_def binade.simps power_int_def power_one_over)
    show "2 * tenth / (1 / 2 ^ 55) = (7205759403792794 :: real)" by (simp add: tenth_def)
    show "roundHalfEven 7205759403792794 = 7205759403792794"
      by (simp add: roundHalfEven_def)
  qed
  then show ?thesis by simp
qed

lemma fl_three_tenths:
  "fl (3602879701896397 / 18014398509481984 + tenth) = 1351079888211149 / 4503599627370496"
proof -
  have "fl (3602879701896397 / 18014398509481984 + tenth)
          = real_of_int 5404319552844596 * (1 / 2 ^ 54)"
  proof (rule fl_eq)
    show "ulp (3602879701896397 / 18014398509481984 + tenth) = 1 / 2 ^ 54"
      by (simp add: tenth_def ulp_def binade.simps power_int_def power_one_over)
    show "(3602879701896397 / 18014398509481984 + tenth) / (1 / 2 ^ 54)
            = (10808639105689191 / 2 :: real)"
      by (simp add: tenth_def)
    show "roundHalfEven (10808639105689191 / 2) = 5404319552844596"
      by (simp add: roundHalfEven_def Let_def)
  qed
  then show ?thesis by simp
qed

lemma fl_third_of_sum:
  "fl (1351079888211149 / 13510798882111488) = 7205759403792795 / 72057594037927936"
proof -
  have "fl (1351079888211149 / 13510798882111488)
          = real_of_int 7205759403792795 * (1 / 2 ^ 56)"
  proof (rule fl_eq)
    show "ulp (1351079888211149 / 13510798882111488) = 1 / 2 ^ 56"
      by (simp add: ulp_def binade.simps power_int_def power_one_over)
    show "1351079888211149 / 13510798882111488 / (1 / 2 ^ 56)
            = (21617278211378384 / 3 :: real)"
      by simp
    show "roundHalfEven (21617278211378384 / 3) = 7205759403792795"
      by (simp add: roundHalfEven_def Let_def)
  qed
  then show ?thesis by simp
qed

section \<open>Properties of the statistics\<close>

lemma percentile_index_in_range:
  assumes "0 < n"
  shows "nat (Math_floor (real n * 0.9)) < n"
proof -
  have "real n * 0.9 < real n" using assms by simp
  then have "Math_floor (real n * 0.9) < int n"
    unfolding Math_floor_def by (simp add: floor_less_iff)
  moreover have "0 \<le> Math_floor (real n * 0.9)"
    unfolding Math_floor_def by simp
  ultimately show ?thesis by linarith
qed

lemma mean_calculateStats:
  "xs \<noteq> [] \<Longrightarrow>
     mean (calculateStats xs) = fl (foldl (\<lambda>a b. fl (a + b)) 0 xs / real (length xs))"
  by (simp add: calculateStats_def Let_def)

lemma percentile90_calculateStats:
  assumes "xs \<noteq> []"
  shows "percentile90 (calculateStats xs) =
           Some (sort xs ! nat (Math_floor (real (length xs) * 0.9)))"
proof -
  have "0 < length xs" using assms by simp
  then have "nat (Math_floor (real (length xs) * 0.9)) < length xs"
    by (rule percentile_index_in_range)
  then show ?thesis using assms
    by (simp add: calculateStats_def Let_def at_index_def)
qed

text \<open>
  C2 (as the code has it). \<^verbatim>\<open>calculateStats\<close> maps the empty series to mean 0 and
  percentile90 0. For a non-empty series of length N the mean is the arithmetic mean as
  doubles compute it: the entries are added from left to right, every partial sum
  rounded to a double, and the sum divided by N is rounded again; no bound by the least
  and the greatest entry is stated, since the rounding can carry the mean past them.
  The percentile90 is the entry of the ascending-sorted series at index floor(0.9 N)
  cut to N - 1 (the cut never changes the index, floor(0.9 N) being below N).
\<close>

theorem calculateStats_summary:
  "mean (calculateStats []) = 0 \<and> percentile90 (calculateStats []) = Some 0 \<and>
   (xs \<noteq> [] \<longrightarrow>
      mean (calculateStats xs) =
        fl (foldl (\<lambda>total x. fl (total + x)) 0 xs / real (length xs)) \<and>
      percentile90 (calculateStats xs) =
        Some (sort xs ! min (nat \<lfloor>0.9 * real (length xs)\<rfloor>) (length xs - 1)))"
proof (intro conjI impI)
  show "mean (calculateStats []) = 0" by (simp add: calculateStats_def)
  show "percentile90 (calculateStats []) = Some 0" by (simp add: calculateStats_def)
next
  assume ne: "xs \<noteq> []"
  show "mean (calculateStats xs) =
          fl (foldl (\<lambda>total x. fl (total + x)) 0 xs / real (length xs))"
    using ne by (rule mean_calculateStats)
  have "0 < length xs" using ne by simp
  then have "nat (Math_floor (real (length xs) * 0.9)) < length xs"
    by (rule percentile_index_in_range)
  then have "min (nat \<lfloor>0.9 * real (length xs)\<rfloor>) (length xs - 1)
               = nat (Math_floor (real (length xs) * 0.9))"
    by (simp add: Math_floor_def mult.commute)
  then show "percentile90 (calculateStats xs) =
        Some (sort xs ! min (nat \<lfloor>0.9 * real (length xs)\<rfloor>) (length xs - 1))"
    using ne by (simp add: percentile90_calculateStats)
qed

text \<open>The theorem at the series 3, 1, 2: the mean is 2, the percentile is 3.\<close>

theorem calculateStats_summary_witness:
  "mean (calculateStats []) = 0 \<and> percentile90 (calculateStats []) = Some 0 \<and>
   [3, 1, 2] \<noteq> ([] :: real list) \<and>
   mean (calculateStats [3, 1, 2]) = 2 \<and>
   percentile90 (calculateStats [3, 1, 2]) = Some 3"
  using calculateStats_summary [of "[3, 1, 2]"] by (simp add: fl_small)

text \<open>
  The series 0.1, 0.1, 0.1: its mean is 0.10000000000000002, the double after 0.1,
  which is greater than the greatest entry.
\<close>

theorem mean_outside_range_counterexample:
  "fl tenth = tenth \<and>
   mean (calculateStats [tenth, tenth, tenth]) = 7205759403792795 / 72057594037927936 \<and>
   Max (set [tenth, tenth, tenth]) < mean (calculateStats [tenth, tenth, tenth])"
proof -
  have m: "mean (calculateStats [tenth, tenth, tenth]) = 7205759403792795 / 72057594037927936"
    by (simp add: calculateStats_def Let_def fl_tenth fl_two_tenths fl_three_tenths
        fl_third_of_sum)
  have "Max (set [tenth, tenth, tenth]) = tenth" by simp
  moreover have "tenth < 7205759403792795 / 72057594037927936" by (simp add: tenth_def)
  ultimately show ?thesis using m fl_tenth by simp
qed

section \<open>The offsets of the frame loop\<close>

lemma frameLoop_runFrames:
  "frameLoop E audio sampleRate i s =
     runFrames E audio sampleRate (frameOffsetsFrom (int (length audio)) i) s"
proof (induction E audio sampleRate i s rule: frameLoop.induct)
  case (1 E audio sampleRate i s)
  show ?case
  proof (cases "i < int (length audio) - frameSize")
    case True
    then show ?thesis
      using "1.IH"
      by (subst frameLoop.simps, subst frameOffsetsFrom.simps) (simp split: sum.split)
  next
    case False
    then show ?thesis
      by (subst frameLoop.simps, subst frameOffsetsFrom.simps) simp
  qed
qed

lemma set_frameOffsetsFrom:
  "set (frameOffsetsFrom L i) = {j. \<exists>k::nat. j = i + int k * hopSize \<and> j < L - frameSize}"
proof (induction L i rule: frameOffsetsFrom.induct)
  case (1 L i)
  show ?case
  proof (cases "i < L - frameSize")
    case True
    have "set (frameOffsetsFrom L i) = insert i (set (frameOffsetsFrom L (i + hopSize)))"
      using True by (subst frameOffsetsFrom.simps) simp
    also have "\<dots> = insert i {j. \<exists>k::nat. j = i + hopSize + int k * hopSize \<and> j < L - frameSize}"
      using "1.IH" [OF True] by simp
    also have "\<dots> = {j. \<exists>k::nat. j = i + int k * hopSize \<and> j < L - frameSize}"
    proof (intro set_eqI iffI)
      fix j
      assume "j \<in> insert i {j. \<exists>k::nat. j = i + hopSize + int k * hopSize \<and> j < L - frameSize}"
      then consider "j = i" | k where "j = i + hopSize + int k * hopSize" "j < L - frameSize"
        by auto
      then show "j \<in> {j. \<exists>k::nat. j = i + int k * hopSize \<and> j < L - frameSize}"
      proof cases
        case 1
        then have "j = i + int 0 * hopSize \<and> j < L - frameSize" using True by simp
        then show ?thesis by blast
      next
        case 2
        then have "j = i + int (Suc k) * hopSize \<and> j < L - frameSize"
          by (simp add: algebra_simps)
        then show ?thesis by blast
      qed
    next
      fix j
      assume "j \<in> {j. \<exists>k::nat. j = i + int k * hopSize \<and> j < L - frameSize}"
      then obtain k :: nat where k: "j = i + int k * hopSize" "j < L - frameSize" by auto
      show "j \<in> insert i {j. \<exists>k::nat. j = i + hopSize + int k * hopSize \<and> j < L - frameSize}"
      proof (cases k)
        case 0
        then show ?thesis using k by simp
      next
        case (Suc k')
        then have "j = i + hopSize + int k' * hopSize" using k by (simp add: algebra_simps)
        then show ?thesis using k by blast
      qed
    qed
    finally show ?thesis .
  next
    case False
    have "frameOffsetsFrom L i = []"
      using False by (subst frameOffsetsFrom.simps) simp
    moreover have "{j. \<exists>k::nat. j = i + int k * hopSize \<and> j < L - frameSize} = {}"
    proof -
      have "\<not> i + int k * hopSize < L - frameSize" for k :: nat
      proof -
        have "0 \<le> int k * hopSize" by (simp add: hopSize_def)
        then show ?thesis using False by linarith
      qed
      then show ?thesis by blast
    qed
    ultimately show ?thesis by simp
  qed
qed

lemma sorted_frameOffsetsFrom: "sorted_wrt (<) (frameOffsetsFrom L i)"
proof (induction L i rule: frameOffsetsFrom.induct)
  case (1 L i)
  show ?case
  proof (cases "i < L - frameSize")
    case True
    have later: "\<And>j. j \<in> set (frameOffsetsFrom L (i + hopSize)) \<Longrightarrow> i < j"
    proof -
      fix j
      assume "j \<in> set (frameOffsetsFrom L (i + hopSize))"
      then obtain k :: nat where "j = i + hopSize + int k * hopSize"
        unfolding set_frameOffsetsFrom by auto
      moreover have "0 \<le> int k * hopSize" by (simp add: hopSize_def)
      moreover have "0 < hopSize" by (simp add: hopSize_def)
      ultimately show "i < j" by linarith
    qed
    show ?thesis
      using True "1.IH" [OF True] later by (subst frameOffsetsFrom.simps) auto
  next
    case False
    then show ?thesis by (subst frameOffsetsFrom.simps) simp
  qed
qed

lemma frameOffsets_10000: "frameOffsetsFrom 10000 0 = [0, 2048, 4096]"
  by (simp add: frameOffsetsFrom.simps frameSize_def hopSize_def)

lemma frameOffsets_4096: "frameOffsetsFrom 4096 0 = []"
  by (simp add: frameOffsetsFrom.simps frameSize_def hopSize_def)

text \<open>
  C4 (as the code has it). For a buffer of length L the frame loop runs its body at
  exactly the offsets 0, H, 2H, ... that are strictly below L - F, in increasing order,
  with F = 4096 and H = 2048; it runs at no offset when L is at most F; a buffer of
  length 10000 gives the offsets 0, 2048, 4096. The bound is strict: line 44 tests
  \<^verbatim>\<open>i < audio.length - frameSize\<close>.
\<close>

theorem frame_loop_offsets:
  "frameLoop E audio sampleRate 0 s = runFrames E audio sampleRate (frameOffsets audio) s \<and>
   set (frameOffsets audio) =
     {i. \<exists>k::nat. i = int k * hopSize \<and> i < int (length audio) - frameSize} \<and>
   sorted_wrt (<) (frameOffsets audio) \<and>
   (int (length audio) \<le> frameSize \<longrightarrow> frameOffsets audio = []) \<and>
   (length audio = 10000 \<longrightarrow> frameOffsets audio = [0, 2048, 4096])"
proof (intro conjI impI)
  show "frameLoop E audio sampleRate 0 s = runFrames E audio sampleRate (frameOffsets audio) s"
    unfolding frameOffsets_def by (rule frameLoop_runFrames)
  show "set (frameOffsets audio) =
     {i. \<exists>k::nat. i = int k * hopSize \<and> i < int (length audio) - frameSize}"
    unfolding frameOffsets_def set_frameOffsetsFrom by simp
  show "sorted_wrt (<) (frameOffsets audio)"
    unfolding frameOffsets_def by (rule sorted_frameOffsetsFrom)
next
  assume "int (length audio) \<le> frameSize"
  then show "frameOffsets audio = []"
    unfolding frameOffsets_def by (subst frameOffsetsFrom.simps) simp
next
  assume "length audio = 10000"
  then show "frameOffsets audio = [0, 2048, 4096]"
    unfolding frameOffsets_def by (simp add: frameOffsets_10000)
qed

text \<open>The theorem at buffers of 10000 and of 100 samples.\<close>

theorem frame_loop_offsets_witness:
  "length (replicate 10000 (0::real)) = 10000 \<and>
   frameOffsets (replicate 10000 0) = [0, 2048, 4096] \<and>
   int (length (replicate 100 (0::real))) \<le> frameSize \<and>
   frameOffsets (replicate 100 0) = []"
  using frame_loop_offsets [of _ "replicate 10000 0"] frame_loop_offsets [of _ "replicate 100 0"]
  by (simp add: frameSize_def)

text \<open>
  A buffer of exactly one frame, L = F = 4096: offset 0 satisfies \<open>i \<le> L - F\<close>, and the
  loop does not run at it.
\<close>

theorem frame_offsets_inclusive_counterexample:
  "frameOffsets (replicate 4096 0) = [] \<and>
   \<not> (set (frameOffsets (replicate 4096 0)) =
        {i. \<exists>k::nat. i = int k * hopSize \<and>
                      i \<le> int (length (replicate 4096 (0::real))) - frameSize})"
proof (intro conjI notI)
  show empty: "frameOffsets (replicate 4096 0) = []"
    by (simp add: frameOffsets_def frameOffsets_4096)
  assume claimed: "set (frameOffsets (replicate 4096 0)) =
        {i. \<exists>k::nat. i = int k * hopSize \<and>
                      i \<le> int (length (replicate 4096 (0::real))) - frameSize}"
  have "(0::int) = int 0 * hopSize \<and> 0 \<le> int (length (replicate 4096 (0::real))) - frameSize"
    by (simp add: frameSize_def)
  then have "(0::int) \<in> {i. \<exists>k::nat. i = int k * hopSize \<and>
                      i \<le> int (length (replicate 4096 (0::real))) - frameSize}"
    by blast
  then have "(0::int) \<in> set (frameOffsets (replicate 4096 0))"
    unfolding claimed .
  then show False unfolding empty by simp
qed

section \<open>Properties of the bar\<close>

lemma length_repeat: "repeat [c] n = Inr str \<Longrightarrow> int (length str) = n"
  by (auto simp: repeat_def split: if_splits)

lemma concat_replicate_single: "concat (replicate n [c]) = replicate n c"
  by (induction n) simp_all

lemma repeat_char: "0 \<le> n \<Longrightarrow> repeat [c] n = Inr (replicate (nat n) c)"
  by (simp add: repeat_def concat_replicate_single)

text \<open>
  C5 (as the code has it). For a score from -2.5 up to, but not including, 102.5, and
  so for every score in [0,100], \<^verbatim>\<open>createBar\<close> returns round(score/5) characters
  \<^verbatim>\<open>#\<close> followed by 20 - round(score/5) characters \<^verbatim>\<open>-\<close>; every bar it returns
  has exactly 20 characters. Nothing is clamped: for a score below -2.5 or from 102.5
  on, one of the two repeat counts is negative and \<^verbatim>\<open>createBar\<close> throws a
  RangeError.
\<close>

theorem createBar_unclamped:
  "(- 5 / 2 \<le> score \<and> score < 205 / 2 \<longrightarrow>
      createBar score =
        Inr (replicate (nat (Math_round (score / 5))) CHR ''#'' @
             replicate (nat (20 - Math_round (score / 5))) CHR ''-'')) \<and>
   (createBar score = Inr bar \<longrightarrow> length bar = 20) \<and>
   (score < - 5 / 2 \<or> 205 / 2 \<le> score \<longrightarrow> createBar score = Inl RangeError)"
proof (intro conjI impI)
  assume range: "- 5 / 2 \<le> score \<and> score < 205 / 2"
  have "0 \<le> Math_round (score / 5)" "Math_round (score / 5) \<le> 20"
    using range unfolding Math_round_def by (simp_all add: le_floor_iff floor_le_iff)
  then show "createBar score =
        Inr (replicate (nat (Math_round (score / 5))) CHR ''#'' @
             replicate (nat (20 - Math_round (score / 5))) CHR ''-'')"
    by (simp add: createBar_def Let_def repeat_char)
next
  assume "createBar score = Inr bar"
  then obtain hashes dashes where
    h: "repeat ''#'' (Math_round (score / 5)) = Inr hashes" and
    d: "repeat ''-'' (20 - Math_round (score / 5)) = Inr dashes" and
    b: "bar = hashes @ dashes"
    by (auto simp: createBar_def Let_def split: sum.splits)
  have "int (length hashes) + int (length dashes) = 20"
    using length_repeat [OF h] length_repeat [OF d] by simp
  then show "length bar = 20" using b by simp
next
  assume out: "score < - 5 / 2 \<or> 205 / 2 \<le> score"
  then consider "score < - 5 / 2" | "205 / 2 \<le> score" by blast
  then show "createBar score = Inl RangeError"
  proof cases
    case 1
    then have "Math_round (score / 5) < 0"
      unfolding Math_round_def by (simp add: floor_less_iff)
    then show ?thesis by (simp add: createBar_def Let_def repeat_def)
  next
    case 2
    then have "21 \<le> Math_round (score / 5)"
      unfolding Math_round_def by (simp add: le_floor_iff)
    then show ?thesis by (simp add: createBar_def Let_def repeat_def)
  qed
qed

lemma Math_round_47: "Math_round (47 / 5) = 9"
  unfolding Math_round_def by simp

text \<open>The theorem at the scores 47 and 110.\<close>

theorem createBar_unclamped_witness:
  "- 5 / 2 \<le> (47::real) \<and> (47::real) < 205 / 2 \<and>
   createBar 47 = Inr ''#########-----------'' \<and>
   length ''#########-----------'' = 20 \<and>
   (205::real) / 2 \<le> 110 \<and> createBar 110 = Inl RangeError"
  using createBar_unclamped [of 47 "''#########-----------''"] createBar_unclamped [of 110]
  by (simp add: Math_round_47 eval_nat_numeral)

text \<open>
  The scores 110 and -10 are not clamped to a bar of twenty characters: the call
  throws.
\<close>

theorem createBar_clamp_counterexample:
  "createBar 110 = Inl RangeError \<and> createBar (- 10) = Inl RangeError"
  by (simp add: createBar_def Math_round_def repeat_def)

section \<open>Properties of the scores\<close>

lemma mean_nonneg:
  assumes "nonneg xs"
  shows "0 \<le> mean (calculateStats xs)"
proof (cases "xs = []")
  case True
  then show ?thesis by (simp add: calculateStats_def)
next
  case False
  have "0 \<le> foldl (\<lambda>a b. fl (a + b)) 0 xs"
    using assms by (intro foldl_fl_nonneg) simp_all
  then have "0 \<le> foldl (\<lambda>a b. fl (a + b)) 0 xs / real (length xs)" by simp
  then have "0 \<le> fl (foldl (\<lambda>a b. fl (a + b)) 0 xs / real (length xs))"
    by (rule fl_nonneg)
  then show ?thesis using False by (simp add: mean_calculateStats)
qed

lemma percentile90_nonneg:
  assumes "nonneg xs"
  shows "\<exists>p. percentile90 (calculateStats xs) = Some p \<and> 0 \<le> p"
proof (cases "xs = []")
  case True
  then show ?thesis by (simp add: calculateStats_def)
next
  case False
  let ?k = "nat (Math_floor (real (length xs) * 0.9))"
  have "?k < length (sort xs)"
    using False percentile_index_in_range [of "length xs"] by simp
  then have "sort xs ! ?k \<in> set (sort xs)" by (rule nth_mem)
  then have "0 \<le> sort xs ! ?k" using assms by (simp add: nonneg_def)
  then show ?thesis using False by (simp add: percentile90_calculateStats)
qed

lemma silenceRatio_nonneg:
  assumes "nonneg xs"
  shows "0 \<le> silenceRatio xs"
proof (cases "xs = []")
  case True
  then show ?thesis by (simp add: silenceRatio_def)
next
  case False
  have "0 \<le> foldl (\<lambda>a b. fl (a + b)) 0 xs"
    using assms by (intro foldl_fl_nonneg) simp_all
  then have "0 \<le> foldl (\<lambda>a b. fl (a + b)) 0 xs / real (length xs)" by simp
  then have "0 \<le> fl (foldl (\<lambda>a b. fl (a + b)) 0 xs / real (length xs))"
    by (rule fl_nonneg)
  then show ?thesis using False by (simp add: silenceRatio_def)
qed

lemma aggressivenessScore_bounds:
  assumes "0 \<le> mean hfcStats" "0 \<le> mean centroidStats" "0 \<le> mean complexityStats"
    "0 \<le> mean dissonanceStats" "0 \<le> mean fluxStats" "nonneg dynamics"
  shows "0 \<le> aggressivenessScore hfcStats centroidStats complexityStats dissonanceStats
                 fluxStats dynamics \<and>
         aggressivenessScore hfcStats centroidStats complexityStats dissonanceStats
                 fluxStats dynamics \<le> 100"
proof -
  define a where "a = min 100 ((mean hfcStats / 10000) * 100)"
  define b where "b = min 100 ((mean centroidStats / 10000) * 100)"
  define c where "c = min 100 ((mean complexityStats / 20) * 100)"
  define d where "d = min 100 (mean dissonanceStats * 200)"
  define e where "e = min 100 (mean fluxStats * 1000)"
  define f where "f = (case dynamics of [] \<Rightarrow> 50 | first # others \<Rightarrow> min 100 (first * 10))"
  have a: "0 \<le> a \<and> a \<le> 100" using assms(1) by (simp add: a_def)
  have b: "0 \<le> b \<and> b \<le> 100" using assms(2) by (simp add: b_def)
  have c: "0 \<le> c \<and> c \<le> 100" using assms(3) by (simp add: c_def)
  have d: "0 \<le> d \<and> d \<le> 100" using assms(4) by (simp add: d_def)
  have e: "0 \<le> e \<and> e \<le> 100" using assms(5) by (simp add: e_def)
  have f: "0 \<le> f \<and> f \<le> 100"
    using assms(6) by (cases dynamics) (simp_all add: f_def nonneg_def)
  have "aggressivenessScore hfcStats centroidStats complexityStats dissonanceStats
          fluxStats dynamics
        = a * (25 / 100) + b * (2 / 10) + c * (15 / 100) + d * (15 / 100) + e * (15 / 100) + f * (1 / 10)"
    by (simp add: aggressivenessScore_def Let_def a_def b_def c_def d_def e_def f_def)
  then show ?thesis using a b c d e f by linarith
qed

lemma tonalityScore_bounds:
  assumes "0 \<le> mean salienceStats" "0 \<le> mean inharmonicityStats" "0 \<le> mean entropyStats"
  shows "0 \<le> tonalityScore salienceStats inharmonicityStats entropyStats \<and>
         tonalityScore salienceStats inharmonicityStats entropyStats \<le> 100"
proof -
  define a where "a = min 100 (mean salienceStats * 100)"
  define b where "b = max 0 (100 - mean inharmonicityStats * 1000)"
  define c where "c = max 0 (100 - mean entropyStats * 12)"
  have a: "0 \<le> a \<and> a \<le> 100" using assms(1) by (simp add: a_def)
  have b: "0 \<le> b \<and> b \<le> 100" using assms(2) by (simp add: b_def)
  have c: "0 \<le> c \<and> c \<le> 100" using assms(3) by (simp add: c_def)
  have "tonalityScore salienceStats inharmonicityStats entropyStats
        = a * (35 / 100) + b * (35 / 100) + c * (2 / 10) + 1 / 10"
    by (simp add: tonalityScore_def Let_def a_def b_def c_def)
  then show ?thesis using a b c by linarith
qed

lemma softnessScore_bounds:
  assumes "0 \<le> mean rolloffStats" "0 \<le> mean loudnessStats" "0 \<le> mean zcrStats"
    "percentile90 loudnessStats = Some p" "0 \<le> p"
  shows "\<exists>v. softnessScore rolloffStats loudnessStats zcrStats = Num v \<and> 0 \<le> v \<and> v \<le> 100"
proof -
  define a where "a = max 0 (100 - mean rolloffStats / 100)"
  define b where "b = max 0 (100 - min 100 (mean loudnessStats / 20))"
  define c where "c = max 0 (100 - mean zcrStats * 200)"
  define d where "d = max 0 (100 - min 100 (p / 30))"
  have a: "0 \<le> a \<and> a \<le> 100" using assms(1) by (simp add: a_def)
  have b: "0 \<le> b \<and> b \<le> 100" using assms(2) by (simp add: b_def)
  have c: "0 \<le> c \<and> c \<le> 100" using assms(3) by (simp add: c_def)
  have d: "0 \<le> d \<and> d \<le> 100" using assms(5) by (simp add: d_def)
  have "softnessScore rolloffStats loudnessStats zcrStats
        = Num (a * (25 / 100) + b * (35 / 100) + c * (2 / 10) + d * (2 / 10))"
    using assms(4) by (simp add: softnessScore_def Let_def a_def b_def c_def d_def)
  moreover have "0 \<le> a * (25 / 100) + b * (35 / 100) + c * (2 / 10) + d * (2 / 10) \<and>
                 a * (25 / 100) + b * (35 / 100) + c * (2 / 10) + d * (2 / 10) \<le> 100"
    using a b c d by linarith
  ultimately show ?thesis by blast
qed

lemma highLowBalance_bounds: "0 \<le> highLowBalance l h \<and> highLowBalance l h \<le> 100"
  by (cases l; cases h) (simp_all add: Let_def)

lemma densityScore_bounds:
  assumes "0 \<le> mean peakCountStats" "0 \<le> silence" "0 \<le> mean complexityStats"
    "0 \<le> mean flatnessStats"
  shows "0 \<le> densityScore peakCountStats silence complexityStats flatnessStats \<and>
         densityScore peakCountStats silence complexityStats flatnessStats \<le> 100"
proof -
  define a where "a = max 0 (100 - mean flatnessStats * 100)"
  define b where "b = min 100 ((mean peakCountStats / 15) * 100)"
  define c where "c = max 0 (100 - silence * 100)"
  define d where "d = min 100 ((mean complexityStats / 10) * 100)"
  have a: "0 \<le> a \<and> a \<le> 100" using assms(4) by (simp add: a_def)
  have b: "0 \<le> b \<and> b \<le> 100" using assms(1) by (simp add: b_def)
  have c: "0 \<le> c \<and> c \<le> 100" using assms(2) by (simp add: c_def)
  have d: "0 \<le> d \<and> d \<le> 100" using assms(3) by (simp add: d_def)
  have "densityScore peakCountStats silence complexityStats flatnessStats
        = b * (35 / 100) + c * (25 / 100) + d * (25 / 100) + a * (15 / 100)"
    by (simp add: densityScore_def Let_def a_def b_def c_def d_def)
  then show ?thesis using a b c d by linarith
qed

text \<open>
  C1. When no entry of a feature series is negative, each of the five scores of the
  Score Composer (aggressiveness, tonality, softness, high-low balance, density) lies
  in [0,100]; the softness score is then a number. The band-energy series need no
  assumption: the balance is in [0,100] for every input.
\<close>

theorem scores_in_range:
  assumes "inRange s"
  shows "0 \<le> aggressiveness (scoresOf s) \<and> aggressiveness (scoresOf s) \<le> 100 \<and>
         0 \<le> tonality (scoresOf s) \<and> tonality (scoresOf s) \<le> 100 \<and>
         (\<exists>v. softness (scoresOf s) = Num v \<and> 0 \<le> v \<and> v \<le> 100) \<and>
         0 \<le> balance (scoresOf s) \<and> balance (scoresOf s) \<le> 100 \<and>
         0 \<le> density (scoresOf s) \<and> density (scoresOf s) \<le> 100"
proof -
  have agg: "0 \<le> aggressiveness (scoresOf s) \<and> aggressiveness (scoresOf s) \<le> 100"
    using assms unfolding inRange_def scoresOf_def Let_def
    by (simp add: aggressivenessScore_bounds mean_nonneg)
  have ton: "0 \<le> tonality (scoresOf s) \<and> tonality (scoresOf s) \<le> 100"
    using assms unfolding inRange_def scoresOf_def Let_def
    by (simp add: tonalityScore_bounds mean_nonneg)
  obtain p where p: "percentile90 (calculateStats (loudnesses s)) = Some p" "0 \<le> p"
    using assms percentile90_nonneg [of "loudnesses s"] unfolding inRange_def by blast
  have "\<exists>v. softnessScore (calculateStats (spectralRolloffs s))
               (calculateStats (loudnesses s)) (calculateStats (zeroCrossingRates s)) = Num v \<and>
             0 \<le> v \<and> v \<le> 100"
    using assms p unfolding inRange_def
    by (intro softnessScore_bounds [where p = p]) (simp_all add: mean_nonneg)
  then have sof: "\<exists>v. softness (scoresOf s) = Num v \<and> 0 \<le> v \<and> v \<le> 100"
    by (simp add: scoresOf_def Let_def)
  have bal: "0 \<le> balance (scoresOf s) \<and> balance (scoresOf s) \<le> 100"
    by (simp add: scoresOf_def Let_def highLowBalance_bounds)
  have den: "0 \<le> density (scoresOf s) \<and> density (scoresOf s) \<le> 100"
    using assms unfolding inRange_def scoresOf_def Let_def
    by (simp add: densityScore_bounds mean_nonneg silenceRatio_nonneg)
  show ?thesis using agg ton sof bal den by blast
qed

lemma inRange_sampleSeries: "inRange sampleSeries"
  by (simp add: inRange_def nonneg_def sampleSeries_def)

text \<open>The theorem at the example series.\<close>

theorem scores_in_range_witness:
  "inRange sampleSeries \<and>
   0 \<le> aggressiveness (scoresOf sampleSeries) \<and> aggressiveness (scoresOf sampleSeries) \<le> 100 \<and>
   0 \<le> tonality (scoresOf sampleSeries) \<and> tonality (scoresOf sampleSeries) \<le> 100 \<and>
   (\<exists>v. softness (scoresOf sampleSeries) = Num v \<and> 0 \<le> v \<and> v \<le> 100) \<and>
   0 \<le> balance (scoresOf sampleSeries) \<and> balance (scoresOf sampleSeries) \<le> 100 \<and>
   0 \<le> density (scoresOf sampleSeries) \<and> density (scoresOf sampleSeries) \<le> 100"
  using scores_in_range [OF inRange_sampleSeries] inRange_sampleSeries by simp

section \<open>Properties of the tonality score and of the balance\<close>

text \<open>
  C7 (as the code has it). For every set of summaries the tonality score is
  0.35 min(100, salienceMean 100) + 0.35 max(0, 100 - inharmonicityMean 1000) +
  0.20 max(0, 100 - entropyMean 12) + 0.1, with the fixed offset 0.1, computed from the
  summaries of the pitch-salience, inharmonicity and entropy series. When the three
  means are zero the score is 0 + 35 + 20 + 0.1 = 55.1.
\<close>

theorem tonality_formula:
  "tonalityScore salienceStats inharmonicityStats entropyStats =
     0.35 * min 100 (mean salienceStats * 100) +
     0.35 * max 0 (100 - mean inharmonicityStats * 1000) +
     0.20 * max 0 (100 - mean entropyStats * 12) + 0.1 \<and>
   tonality (scoresOf s) =
     tonalityScore (calculateStats (pitchSaliences s)) (calculateStats (inharmonicities s))
       (calculateStats (spectralEntropies s)) \<and>
   tonalityScore (salienceStats\<lparr>mean := 0\<rparr>) (inharmonicityStats\<lparr>mean := 0\<rparr>)
     (entropyStats\<lparr>mean := 0\<rparr>) = 55.1"
  by (simp add: tonalityScore_def scoresOf_def Let_def)

text \<open>
  Series of zeros have mean zero, and their tonality score is 55.1, not 70.1.
\<close>

theorem tonality_all_zero_counterexample:
  "mean (calculateStats [0]) = 0 \<and>
   tonalityScore (calculateStats [0]) (calculateStats [0]) (calculateStats [0]) = 55.1 \<and>
   tonalityScore (calculateStats [0]) (calculateStats [0]) (calculateStats [0]) \<noteq> 70.1"
  by (simp add: tonalityScore_def calculateStats_def Let_def fl_zero)

lemma foldl_squares:
  "foldl (\<lambda>a b. a + b * b) a xs = a + sum_list (map (\<lambda>x. x * x) (xs :: real list))"
  by (induction xs arbitrary: a) simp_all

lemma meanSquare_eq:
  "meanSquare xs =
     (if xs = [] then NaN else Num (sum_list (map (\<lambda>x. x * x) xs) / real (length xs)))"
  by (simp add: meanSquare_def Let_def foldl_squares)


lemma foldl_plus_js_Num:
  "foldl plus_js (Num a) (map Num xs) = Num (foldl (\<lambda>a b. fl (a + b)) a xs)"
  by (induction xs arbitrary: a) simp_all

lemma energyMean_numbers:
  "energyMean (map Num xs) = Num (mean (calculateStats xs))"
  by (simp add: energyMean_def foldl_plus_js_Num calculateStats_def Let_def)

lemma energyMean_nonneg:
  assumes "nonneg xs"
  shows "\<exists>m. energyMean (map Num xs) = Num m \<and> 0 \<le> m"
  using assms by (simp add: energyMean_numbers mean_nonneg)






section \<open>Properties of the band energies\<close>

lemma slice_from_start:
  "0 \<le> n \<Longrightarrow> slice xs 0 n = take (nat n) xs"
  by (simp add: slice_def Let_def min_def)

lemma sliceFrom_drop:
  "0 \<le> n \<Longrightarrow> sliceFrom xs n = drop (nat n) xs"
  by (simp add: sliceFrom_def slice_def Let_def min_def)

lemma bandEnergies_NaN: "bandEnergies spectrum = (NaN, NaN)"
  by (simp add: bandEnergies_def Array_from_def Let_def Math_floor_def slice_def sliceFrom_def
      meanSquare_def)


lemma tryBandEnergy_eq:
  "tryBandEnergy spectrum s =
     s\<lparr>lowFreqEnergies := lowFreqEnergies s @ [fst (bandEnergies spectrum)],
       highFreqEnergies := highFreqEnergies s @ [snd (bandEnergies spectrum)]\<rparr>"
  by (simp add: tryBandEnergy_def split: prod.split)

lemma mean_squares_of_ones:
  "meanSquare (slice (replicate 2049 1) 0 (Math_floor (real (2049 :: nat) * 0.1))) = Num 1"
  "meanSquare (sliceFrom (replicate 2049 1) (Math_floor (real (2049 :: nat) * 0.1))) = Num 1"
  by (simp_all add: Math_floor_def slice_from_start sliceFrom_drop meanSquare_eq
      sum_list_replicate)

text \<open>
  C6, the code at a frame it really receives. The spectrum of a frame of 4096 samples
  has 2049 bins; let all of them be 1. The array that line 132 gets from
  \<^verbatim>\<open>Array.from\<close> is empty, so the split is at 0, both sub-slices are empty, both
  energies are \<^verbatim>\<open>0 / 0\<close>, and the block appends \<^verbatim>\<open>NaN\<close> to the low-band and to
  the high-band series. The mean squares of the bins below index 204 and from index 204
  on, which the block is written to append, are 1 and 1.
\<close>

theorem band_energy_of_real_frame:
  "vector_size (Vector (replicate 2049 1)) = 2049 \<and>
   Array_from (Vector (replicate 2049 1)) = [] \<and>
   bandEnergies (Vector (replicate 2049 1)) = (NaN, NaN) \<and>
   lowFreqEnergies (tryBandEnergy (Vector (replicate 2049 1)) emptySeries) = [NaN] \<and>
   highFreqEnergies (tryBandEnergy (Vector (replicate 2049 1)) emptySeries) = [NaN] \<and>
   Math_floor (real (2049 :: nat) * 0.1) = 204 \<and>
   meanSquare (slice (replicate 2049 1) 0 (Math_floor (real (2049 :: nat) * 0.1))) = Num 1 \<and>
   meanSquare (sliceFrom (replicate 2049 1) (Math_floor (real (2049 :: nat) * 0.1))) = Num 1"
proof -
  have "Math_floor (real (2049 :: nat) * 0.1) = 204" by (simp add: Math_floor_def)
  then show ?thesis
    using mean_squares_of_ones
    by (simp add: tryBandEnergy_eq bandEnergies_NaN Array_from_def emptySeries_def)
qed

section \<open>Properties of the loop body\<close>

lemma tryHFC_eq:
  "tryHFC E spectrum s = s\<lparr>hfcValues := hfcValues s @ pushed (HFC E spectrum)\<rparr>"
  by (simp add: tryHFC_def pushed_def split: option.split)

lemma tryCentroid_eq:
  "tryCentroid E sampleRate spectrum s =
     s\<lparr>spectralCentroids := spectralCentroids s @
          pushed (map_option (\<lambda>c. (c * sampleRate) / 2) (Centroid E spectrum))\<rparr>"
  by (simp add: tryCentroid_def pushed_def split: option.split)

lemma tryComplexity_eq:
  "tryComplexity E spectrum s =
     s\<lparr>spectralComplexities := spectralComplexities s @
          pushed (SpectralComplexity E spectrum)\<rparr>"
  by (simp add: tryComplexity_def pushed_def split: option.split)

lemma tryDissonance_eq:
  "tryDissonance E spectrum s =
     s\<lparr>dissonances := dissonances s @
          pushed (Option.bind (SpectralPeaks E spectrum None) (\<lambda>(f, m). Dissonance E f m))\<rparr>"
  by (simp add: tryDissonance_def pushed_def split: option.split prod.split)

lemma trySalience_eq:
  "trySalience E spectrum s =
     s\<lparr>pitchSaliences := pitchSaliences s @ pushed (PitchSalience E spectrum)\<rparr>"
  by (simp add: trySalience_def pushed_def split: option.split)

lemma tryInharmonicity_eq:
  "tryInharmonicity E spectrum s =
     s\<lparr>inharmonicities := inharmonicities s @
          pushed (Option.bind (SpectralPeaks E spectrum None) (\<lambda>(f, m). Inharmonicity E f m))\<rparr>"
  by (simp add: tryInharmonicity_def pushed_def split: option.split prod.split)

lemma tryEntropy_eq:
  "tryEntropy E spectrum s =
     s\<lparr>spectralEntropies := spectralEntropies s @ pushed (Entropy E spectrum)\<rparr>"
  by (simp add: tryEntropy_def pushed_def split: option.split)

lemma tryRolloff_eq:
  "tryRolloff E sampleRate spectrum s =
     s\<lparr>spectralRolloffs := spectralRolloffs s @
          pushed (map_option (\<lambda>r. (r * sampleRate) / 2) (RollOff E spectrum 0.85))\<rparr>"
  by (simp add: tryRolloff_def pushed_def split: option.split)

lemma tryLoudness_eq:
  "tryLoudness E frameVector s =
     s\<lparr>loudnesses := loudnesses s @ pushed (Loudness E frameVector)\<rparr>"
  by (simp add: tryLoudness_def pushed_def split: option.split)

lemma tryZeroCrossingRate_eq:
  "tryZeroCrossingRate E frameVector s =
     s\<lparr>zeroCrossingRates := zeroCrossingRates s @ pushed (ZeroCrossingRate E frameVector)\<rparr>"
  by (simp add: tryZeroCrossingRate_def pushed_def split: option.split)

lemma tryFlux_eq:
  "tryFlux E audio i spectrum s =
     s\<lparr>spectralFluxes := spectralFluxes s @
          (if i > 0
           then pushed (Option.bind (frameTransforms E audio (i - hopSize))
                          (\<lambda>(prevVector, prevSpectrum). Flux E prevSpectrum spectrum))
           else [])\<rparr>"
  by (simp add: tryFlux_def frameTransforms_def Let_def pushed_def split: option.split)

lemma tryFlatness_eq:
  "tryFlatness E spectrum s =
     s\<lparr>spectralFlatnesses := spectralFlatnesses s @ pushed (Flatness E spectrum)\<rparr>"
  by (simp add: tryFlatness_def pushed_def split: option.split)

lemma tryPeakCount_eq:
  "tryPeakCount E sampleRate spectrum s =
     s\<lparr>spectralPeakCounts := spectralPeakCounts s @
          pushed (map_option (\<lambda>(f, m). real (vector_size f))
                    (SpectralPeaks E spectrum
                       (Some (50, sampleRate / 2, 20, 0.000001, ''magnitude''))))\<rparr>"
  by (simp add: tryPeakCount_def pushed_def split: option.split prod.split)

lemma trySilence_eq:
  "trySilence E frameVector s =
     s\<lparr>frameSilences := frameSilences s @
          pushed (map_option (\<lambda>e. if e < 0.001 then 1 else 0) (Energy E frameVector))\<rparr>"
  by (simp add: trySilence_def pushed_def split: option.split)

lemmas try_block_eqs =
  tryHFC_eq tryCentroid_eq tryComplexity_eq tryDissonance_eq trySalience_eq
  tryInharmonicity_eq tryEntropy_eq tryRolloff_eq tryLoudness_eq tryZeroCrossingRate_eq
  tryFlux_eq tryBandEnergy_eq tryFlatness_eq tryPeakCount_eq trySilence_eq

lemma frameFeatures_fields:
  "hfcValues (frameFeatures E audio sampleRate i frameVector spectrum s) =
     hfcValues s @ pushed (HFC E spectrum)"
  "spectralCentroids (frameFeatures E audio sampleRate i frameVector spectrum s) =
     spectralCentroids s @
       pushed (map_option (\<lambda>c. (c * sampleRate) / 2) (Centroid E spectrum))"
  "spectralComplexities (frameFeatures E audio sampleRate i frameVector spectrum s) =
     spectralComplexities s @ pushed (SpectralComplexity E spectrum)"
  "dissonances (frameFeatures E audio sampleRate i frameVector spectrum s) =
     dissonances s @
       pushed (Option.bind (SpectralPeaks E spectrum None) (\<lambda>(f, m). Dissonance E f m))"
  "pitchSaliences (frameFeatures E audio sampleRate i frameVector spectrum s) =
     pitchSaliences s @ pushed (PitchSalience E spectrum)"
  "inharmonicities (frameFeatures E audio sampleRate i frameVector spectrum s) =
     inharmonicities s @
       pushed (Option.bind (SpectralPeaks E spectrum None) (\<lambda>(f, m). Inharmonicity E f m))"
  "spectralEntropies (frameFeatures E audio sampleRate i frameVector spectrum s) =
     spectralEntropies s @ pushed (Entropy E spectrum)"
  "spectralRolloffs (frameFeatures E audio sampleRate i frameVector spectrum s) =
     spectralRolloffs s @
       pushed (map_option (\<lambda>r. (r * sampleRate) / 2) (RollOff E spectrum 0.85))"
  "loudnesses (frameFeatures E audio sampleRate i frameVector spectrum s) =
     loudnesses s @ pushed (Loudness E frameVector)"
  "zeroCrossingRates (frameFeatures E audio sampleRate i frameVector spectrum s) =
     zeroCrossingRates s @ pushed (ZeroCrossingRate E frameVector)"
  "dynamicComplexities (frameFeatures E audio sampleRate i frameVector spectrum s) =
     dynamicComplexities s"
  "spectralFluxes (frameFeatures E audio sampleRate i frameVector spectrum s) =
     spectralFluxes s @
       (if i > 0
        then pushed (Option.bind (frameTransforms E audio (i - hopSize))
                       (\<lambda>(prevVector, prevSpectrum). Flux E prevSpectrum spectrum))
        else [])"
  "lowFreqEnergies (frameFeatures E audio sampleRate i frameVector spectrum s) =
     lowFreqEnergies s @ [fst (bandEnergies spectrum)]"
  "highFreqEnergies (frameFeatures E audio sampleRate i frameVector spectrum s) =
     highFreqEnergies s @ [snd (bandEnergies spectrum)]"
  "spectralFlatnesses (frameFeatures E audio sampleRate i frameVector spectrum s) =
     spectralFlatnesses s @ pushed (Flatness E spectrum)"
  "spectralPeakCounts (frameFeatures E audio sampleRate i frameVector spectrum s) =
     spectralPeakCounts s @
       pushed (map_option (\<lambda>(f, m). real (vector_size f))
                 (SpectralPeaks E spectrum
                    (Some (50, sampleRate / 2, 20, 0.000001, ''magnitude''))))"
  "frameSilences (frameFeatures E audio sampleRate i frameVector spectrum s) =
     frameSilences s @
       pushed (map_option (\<lambda>e. if e < 0.001 then 1 else 0) (Energy E frameVector))"
  unfolding frameFeatures_def try_block_eqs by simp_all

lemma processFrame_Inr:
  "processFrame E audio sampleRate i s = Inr s' \<longleftrightarrow>
     (\<exists>frameVector spectrum.
        frameTransforms E audio i = Some (frameVector, spectrum) \<and>
        s' = frameFeatures E audio sampleRate i frameVector spectrum s)"
  by (auto simp: processFrame_def split: option.splits)

section \<open>Properties of the frame loop\<close>

lemma runFrames_append:
  "runFrames E audio sampleRate (xs @ ys) s =
     (case runFrames E audio sampleRate xs s of
        Inl e \<Rightarrow> Inl e
      | Inr s' \<Rightarrow> runFrames E audio sampleRate ys s')"
  by (induction xs arbitrary: s) (simp_all split: sum.split)

lemma runFrames_transforms:
  assumes "runFrames E audio sampleRate offsets s = Inr s'"
  shows "\<forall>i \<in> set offsets. frameTransforms E audio i \<noteq> None"
  using assms
proof (induction offsets arbitrary: s)
  case Nil
  show ?case by simp
next
  case (Cons i offsets)
  from Cons.prems obtain s1 where
    s1: "processFrame E audio sampleRate i s = Inr s1" and
    rest: "runFrames E audio sampleRate offsets s1 = Inr s'"
    by (auto split: sum.splits)
  from s1 have "frameTransforms E audio i \<noteq> None"
    by (auto simp: processFrame_Inr)
  then show ?case using Cons.IH [OF rest] by simp
qed

lemma runFrames_completes:
  assumes "\<forall>i \<in> set offsets. frameTransforms E audio i \<noteq> None"
  shows "\<exists>s'. runFrames E audio sampleRate offsets s = Inr s'"
  using assms
proof (induction offsets arbitrary: s)
  case Nil
  show ?case by simp
next
  case (Cons i offsets)
  then obtain frameVector spectrum where
    "frameTransforms E audio i = Some (frameVector, spectrum)" by auto
  then have "processFrame E audio sampleRate i s =
               Inr (frameFeatures E audio sampleRate i frameVector spectrum s)"
    by (simp add: processFrame_def)
  then show ?case using Cons by simp
qed

lemma runFrames_series:
  assumes step: "\<And>i s s'. processFrame E audio sampleRate i s = Inr s' \<Longrightarrow> f s' = f s @ g i"
    and run: "runFrames E audio sampleRate offsets s = Inr s'"
  shows "f s' = f s @ concat (map g offsets)"
  using run
proof (induction offsets arbitrary: s)
  case Nil
  then show ?case by simp
next
  case (Cons i offsets)
  from Cons.prems obtain s1 where
    s1: "processFrame E audio sampleRate i s = Inr s1" and
    rest: "runFrames E audio sampleRate offsets s1 = Inr s'"
    by (auto split: sum.splits)
  have "f s' = f s1 @ concat (map g offsets)" using Cons.IH [OF rest] .
  also have "f s1 = f s @ g i" using step [OF s1] .
  finally show ?case by simp
qed

lemma collect_Inr:
  "collect E audio sampleRate = Inr s' \<longleftrightarrow>
     (\<exists>s1. runFrames E audio sampleRate (frameOffsets audio) emptySeries = Inr s1 \<and>
           s' = tryDynamicComplexity E audio s1)"
  by (auto simp: collect_def frameLoop_runFrames frameOffsets_def split: sum.splits)

lemma tryDynamicComplexity_eq:
  "tryDynamicComplexity E audio s =
     s\<lparr>dynamicComplexities := dynamicComplexities s @
          pushed (Option.bind (arrayToVector E audio) (DynamicComplexity E))\<rparr>"
  by (simp add: tryDynamicComplexity_def pushed_def split: option.split)

text \<open>
  The flux block at offset \<open>i\<close>: nothing for \<open>i = 0\<close>, otherwise the flux between the
  spectrum of the frame at \<open>i - hopSize\<close>, computed again from the samples, and the
  spectrum of the frame at \<open>i\<close>.
\<close>

lemma processFrame_flux:
  assumes "processFrame E audio sampleRate i s = Inr s'"
  shows "spectralFluxes s' = spectralFluxes s @
           (if i > 0
            then pushed (Option.bind (frameTransforms E audio (i - hopSize))
                   (\<lambda>(prevVector, prevSpectrum).
                      Option.bind (frameTransforms E audio i)
                        (\<lambda>(frameVector, spectrum). Flux E prevSpectrum spectrum)))
            else [])"
  using assms by (auto simp: processFrame_Inr frameFeatures_fields)

lemma length_pushed: "length (pushed r) \<le> Suc 0"
  by (simp add: pushed_def split: option.split)

lemma length_concat_flux:
  assumes "\<And>i. length (g i) \<le> 1" and "\<And>i. \<not> i > (0::int) \<Longrightarrow> g i = []"
  shows "length (concat (map g offsets)) \<le> length (filter (\<lambda>i. i > 0) offsets)"
proof (induction offsets)
  case Nil
  show ?case by simp
next
  case (Cons i offsets)
  show ?case
  proof (cases "i > 0")
    case True
    then show ?thesis using Cons assms(1) [of i] by simp
  next
    case False
    then show ?thesis using Cons assms(2) [of i] by simp
  qed
qed

lemma frameOffsets_first:
  assumes "frameOffsets audio \<noteq> []"
  shows "\<exists>rest. frameOffsets audio = 0 # rest"
proof -
  have "0 < int (length audio) - frameSize"
  proof (rule ccontr)
    assume "\<not> 0 < int (length audio) - frameSize"
    then have "frameOffsets audio = []"
      unfolding frameOffsets_def by (subst frameOffsetsFrom.simps) simp
    then show False using assms by simp
  qed
  then show ?thesis
    unfolding frameOffsets_def by (subst frameOffsetsFrom.simps) simp
qed

text \<open>
  C8. In every run that completes, the flux series is made of at most one value for
  each frame offset \<open>i > 0\<close>, in frame order, and of none for the first offset 0: the
  value for offset \<open>i\<close> is the flux between the spectrum of the frame at \<open>i - H\<close>,
  computed again from the raw samples by the steps of lines 45-54, and the spectrum of
  the frame at \<open>i\<close>. So the series is no longer than the number of offsets above 0,
  which is the frame count minus 1 when there is a frame; with no frame it is empty.
\<close>

theorem flux_skips_first_frame:
  assumes "collect E audio sampleRate = Inr s'"
  shows "spectralFluxes s' =
           concat (map (\<lambda>i. if i > 0
                             then pushed (Option.bind (frameTransforms E audio (i - hopSize))
                                    (\<lambda>(prevVector, prevSpectrum).
                                       Option.bind (frameTransforms E audio i)
                                         (\<lambda>(frameVector, spectrum). Flux E prevSpectrum spectrum)))
                             else [])
                       (frameOffsets audio)) \<and>
         length (spectralFluxes s') \<le> length (filter (\<lambda>i. i > 0) (frameOffsets audio)) \<and>
         (frameOffsets audio \<noteq> [] \<longrightarrow>
            hd (frameOffsets audio) = 0 \<and>
            length (spectralFluxes s') \<le> length (frameOffsets audio) - 1) \<and>
         (frameOffsets audio = [] \<longrightarrow> spectralFluxes s' = [])"
proof -
  let ?g = "\<lambda>i. if i > 0
                 then pushed (Option.bind (frameTransforms E audio (i - hopSize))
                        (\<lambda>(prevVector, prevSpectrum).
                           Option.bind (frameTransforms E audio i)
                             (\<lambda>(frameVector, spectrum). Flux E prevSpectrum spectrum)))
                 else []"
  from assms obtain s1 where
    run: "runFrames E audio sampleRate (frameOffsets audio) emptySeries = Inr s1" and
    s': "s' = tryDynamicComplexity E audio s1"
    by (auto simp: collect_Inr)
  have "spectralFluxes s1 = spectralFluxes emptySeries @ concat (map ?g (frameOffsets audio))"
    using processFrame_flux run by (rule runFrames_series)
  then have eq: "spectralFluxes s' = concat (map ?g (frameOffsets audio))"
    by (simp add: s' tryDynamicComplexity_eq emptySeries_def)
  have len: "length (concat (map ?g (frameOffsets audio)))
               \<le> length (filter (\<lambda>i. i > 0) (frameOffsets audio))"
    by (rule length_concat_flux) (simp_all add: length_pushed)
  have first: "hd (frameOffsets audio) = 0 \<and>
               length (spectralFluxes s') \<le> length (frameOffsets audio) - 1"
    if nonempty: "frameOffsets audio \<noteq> []"
  proof -
    obtain rest where rest: "frameOffsets audio = 0 # rest"
      using frameOffsets_first [OF nonempty] by blast
    have "length (spectralFluxes s') \<le> length (filter (\<lambda>i. i > 0) (frameOffsets audio))"
      using len unfolding eq .
    also have "\<dots> \<le> length rest"
      unfolding rest by simp
    finally show ?thesis by (simp add: rest)
  qed
  have none: "spectralFluxes s' = []" if "frameOffsets audio = []"
    using eq that by simp
  have bound: "length (spectralFluxes s') \<le> length (filter (\<lambda>i. i > 0) (frameOffsets audio))"
    using len unfolding eq .
  show ?thesis using eq bound first none by blast
qed

section \<open>The example run\<close>

lemma frameTransforms_sample:
  "frameTransforms sampleEssentia audio i =
     Some (Vector (slice audio i (i + frameSize)), sampleSpectrum)"
  by (simp add: frameTransforms_def sampleEssentia_def Let_def)

lemma spectrumAt_sample: "spectrumAt sampleEssentia audio i = sampleSpectrum"
  by (simp add: spectrumAt_def frameTransforms_sample)

lemma frameVectorAt_sample:
  "frameVectorAt sampleEssentia audio i = Vector (slice audio i (i + frameSize))"
  by (simp add: frameVectorAt_def frameTransforms_sample)

lemma features_sample:
  "HFC sampleEssentia v = None"
  "Centroid sampleEssentia v = Some 0.5"
  "SpectralComplexity sampleEssentia v = Some 3"
  "SpectralPeaks sampleEssentia v params = Some (Vector [100, 200], Vector [1, 2])"
  "Dissonance sampleEssentia f m = Some 0.25"
  "PitchSalience sampleEssentia v = Some 0.5"
  "Inharmonicity sampleEssentia f m = None"
  "Entropy sampleEssentia v = Some 4"
  "RollOff sampleEssentia v c = Some 0.25"
  "Loudness sampleEssentia v = Some 10"
  "ZeroCrossingRate sampleEssentia v = Some 0.125"
  "Flux sampleEssentia u v = Some 0.02"
  "Flatness sampleEssentia v = Some 0.5"
  "Energy sampleEssentia v = Some 0"
  "DynamicComplexity sampleEssentia v = Some 2"
  "arrayToVector sampleEssentia a = Some (Vector a)"
  by (simp_all add: sampleEssentia_def)

lemma frameOffsets_sample: "frameOffsets sampleAudio = [0, 2048, 4096]"
  by (simp add: frameOffsets_def sampleAudio_def frameOffsets_10000)


lemma collect_sample: "\<exists>final. collect sampleEssentia sampleAudio 44100 = Inr final"
proof -
  have "\<forall>i \<in> set (frameOffsets sampleAudio). frameTransforms sampleEssentia sampleAudio i \<noteq> None"
    by (simp add: frameTransforms_sample)
  then obtain s1 where
    "runFrames sampleEssentia sampleAudio 44100 (frameOffsets sampleAudio) emptySeries = Inr s1"
    using runFrames_completes by blast
  then show ?thesis by (auto simp: collect_Inr)
qed

lemma frameLoop_sample:
  "\<exists>final. frameLoop sampleEssentia sampleAudio 44100 0 emptySeries = Inr final"
proof -
  have "\<forall>i \<in> set (frameOffsets sampleAudio). frameTransforms sampleEssentia sampleAudio i \<noteq> None"
    by (simp add: frameTransforms_sample)
  then obtain s1 where
    "runFrames sampleEssentia sampleAudio 44100 (frameOffsets sampleAudio) emptySeries = Inr s1"
    using runFrames_completes by blast
  then show ?thesis by (simp add: frameLoop_runFrames frameOffsets_def)
qed

text \<open>
  The theorem at the example run: three frames, two flux values.
\<close>

theorem flux_skips_first_frame_witness:
  "\<exists>final. collect sampleEssentia sampleAudio 44100 = Inr final \<and>
     frameOffsets sampleAudio = [0, 2048, 4096] \<and>
     spectralFluxes final = [0.02, 0.02] \<and>
     length (spectralFluxes final) \<le> length (frameOffsets sampleAudio) - 1"
proof -
  obtain final where final: "collect sampleEssentia sampleAudio 44100 = Inr final"
    using collect_sample by blast
  have "spectralFluxes final = [0.02, 0.02]"
    using flux_skips_first_frame [OF final]
    by (simp add: frameOffsets_sample frameTransforms_sample hopSize_def pushed_def
        features_sample)
  then show ?thesis using final by (simp add: frameOffsets_sample)
qed

section \<open>The series of a run\<close>

text \<open>What one frame appends to each series, and what a completed run has collected.\<close>

lemma processFrame_fields:
  assumes "processFrame E audio sampleRate i s = Inr s'"
  shows
    "hfcValues s' = hfcValues s @
      pushed (HFC E (spectrumAt E audio i))"
    "spectralCentroids s' = spectralCentroids s @
      pushed (map_option (\<lambda>c. (c * sampleRate) / 2) (Centroid E (spectrumAt E audio i)))"
    "spectralComplexities s' = spectralComplexities s @
      pushed (SpectralComplexity E (spectrumAt E audio i))"
    "dissonances s' = dissonances s @
      pushed (Option.bind (SpectralPeaks E (spectrumAt E audio i) None)
                (\<lambda>(f, m). Dissonance E f m))"
    "pitchSaliences s' = pitchSaliences s @
      pushed (PitchSalience E (spectrumAt E audio i))"
    "inharmonicities s' = inharmonicities s @
      pushed (Option.bind (SpectralPeaks E (spectrumAt E audio i) None)
                (\<lambda>(f, m). Inharmonicity E f m))"
    "spectralEntropies s' = spectralEntropies s @
      pushed (Entropy E (spectrumAt E audio i))"
    "spectralRolloffs s' = spectralRolloffs s @
      pushed (map_option (\<lambda>r. (r * sampleRate) / 2) (RollOff E (spectrumAt E audio i) 0.85))"
    "loudnesses s' = loudnesses s @
      pushed (Loudness E (frameVectorAt E audio i))"
    "zeroCrossingRates s' = zeroCrossingRates s @
      pushed (ZeroCrossingRate E (frameVectorAt E audio i))"
    "lowFreqEnergies s' = lowFreqEnergies s @
      [fst (bandEnergies (spectrumAt E audio i))]"
    "highFreqEnergies s' = highFreqEnergies s @
      [snd (bandEnergies (spectrumAt E audio i))]"
    "spectralFlatnesses s' = spectralFlatnesses s @
      pushed (Flatness E (spectrumAt E audio i))"
    "spectralPeakCounts s' = spectralPeakCounts s @
      pushed (map_option (\<lambda>(f, m). real (vector_size f))
                (SpectralPeaks E (spectrumAt E audio i)
                   (Some (50, sampleRate / 2, 20, 0.000001, ''magnitude''))))"
    "frameSilences s' = frameSilences s @
      pushed (map_option (\<lambda>e. if e < 0.001 then 1 else 0) (Energy E (frameVectorAt E audio i)))"
  using assms
  by (auto simp: processFrame_Inr frameFeatures_fields spectrumAt_def frameVectorAt_def)



lemma concat_singletons: "concat (map (\<lambda>x. [f x]) xs) = map f xs"
  by (induction xs) simp_all

text \<open>
  C10. The state after the first \<open>k\<close> frames of a run is the loop body run at the
  first \<open>k\<close> offsets. Whenever these frames were processed, the low-band and the
  high-band series of that state have the same length, the number of frames processed,
  and their entries at position \<open>j\<close> are the first and the second of the two energies
  that the band block computes, in one pass, from one and the same spectrum, that of the
  frame at the \<open>j\<close>-th offset. When the frame loop completes, this state exists for
  every \<open>k\<close>, and the result of the loop is the state after all frames.
\<close>

theorem band_series_lockstep:
  "(runFrames E audio sampleRate (take k (frameOffsets audio)) emptySeries = Inr s' \<longrightarrow>
      length (lowFreqEnergies s') = length (highFreqEnergies s') \<and>
      length (lowFreqEnergies s') = length (take k (frameOffsets audio)) \<and>
      (\<forall>i \<in> set (take k (frameOffsets audio)). frameTransforms E audio i \<noteq> None) \<and>
      lowFreqEnergies s' =
        map (\<lambda>i. fst (bandEnergies (spectrumAt E audio i))) (take k (frameOffsets audio)) \<and>
      highFreqEnergies s' =
        map (\<lambda>i. snd (bandEnergies (spectrumAt E audio i))) (take k (frameOffsets audio))) \<and>
   (frameLoop E audio sampleRate 0 emptySeries = Inr final \<longrightarrow>
      (\<exists>s1. runFrames E audio sampleRate (take k (frameOffsets audio)) emptySeries = Inr s1) \<and>
      runFrames E audio sampleRate (frameOffsets audio) emptySeries = Inr final)"
proof (intro conjI impI)
  let ?offs = "take k (frameOffsets audio)"
  assume run: "runFrames E audio sampleRate ?offs emptySeries = Inr s'"
  show "\<forall>i \<in> set ?offs. frameTransforms E audio i \<noteq> None"
    using run by (rule runFrames_transforms)
  have "lowFreqEnergies s' = lowFreqEnergies emptySeries @
          concat (map (\<lambda>i. [fst (bandEnergies (spectrumAt E audio i))]) ?offs)"
    using processFrame_fields(11) run by (rule runFrames_series)
  then show low:
    "lowFreqEnergies s' = map (\<lambda>i. fst (bandEnergies (spectrumAt E audio i))) ?offs"
    by (simp add: concat_singletons emptySeries_def)
  have "highFreqEnergies s' = highFreqEnergies emptySeries @
          concat (map (\<lambda>i. [snd (bandEnergies (spectrumAt E audio i))]) ?offs)"
    using processFrame_fields(12) run by (rule runFrames_series)
  then show high:
    "highFreqEnergies s' = map (\<lambda>i. snd (bandEnergies (spectrumAt E audio i))) ?offs"
    by (simp add: concat_singletons emptySeries_def)
  show "length (lowFreqEnergies s') = length (highFreqEnergies s')"
    unfolding low high by simp
  show "length (lowFreqEnergies s') = length ?offs"
    unfolding low by simp
next
  assume loop: "frameLoop E audio sampleRate 0 emptySeries = Inr final"
  then show all: "runFrames E audio sampleRate (frameOffsets audio) emptySeries = Inr final"
    by (simp add: frameLoop_runFrames frameOffsets_def)
  have "runFrames E audio sampleRate
          (take k (frameOffsets audio) @ drop k (frameOffsets audio)) emptySeries = Inr final"
    using all by simp
  then show "\<exists>s1. runFrames E audio sampleRate (take k (frameOffsets audio)) emptySeries = Inr s1"
    unfolding runFrames_append by (auto split: sum.splits)
qed

text \<open>
  The theorem at the example run, after two of its three frames.
\<close>

theorem band_series_lockstep_witness:
  "\<exists>final s'. frameLoop sampleEssentia sampleAudio 44100 0 emptySeries = Inr final \<and>
     runFrames sampleEssentia sampleAudio 44100 (take 2 (frameOffsets sampleAudio)) emptySeries
       = Inr s' \<and>
     lowFreqEnergies s' =
       [fst (bandEnergies sampleSpectrum), fst (bandEnergies sampleSpectrum)] \<and>
     highFreqEnergies s' =
       [snd (bandEnergies sampleSpectrum), snd (bandEnergies sampleSpectrum)] \<and>
     lowFreqEnergies s' = [NaN, NaN] \<and> highFreqEnergies s' = [NaN, NaN] \<and>
     length (lowFreqEnergies s') = 2 \<and> length (highFreqEnergies s') = 2"
proof -
  obtain final where
    final: "frameLoop sampleEssentia sampleAudio 44100 0 emptySeries = Inr final"
    using frameLoop_sample by blast
  note inst = band_series_lockstep [of sampleEssentia sampleAudio 44100 2 _ final]
  from inst final obtain s' where
    run: "runFrames sampleEssentia sampleAudio 44100 (take 2 (frameOffsets sampleAudio))
            emptySeries = Inr s'"
    by blast
  have "lowFreqEnergies s' =
          [fst (bandEnergies sampleSpectrum), fst (bandEnergies sampleSpectrum)] \<and>
        highFreqEnergies s' =
          [snd (bandEnergies sampleSpectrum), snd (bandEnergies sampleSpectrum)]"
    using band_series_lockstep [of sampleEssentia sampleAudio 44100 2 s' final] run
    by (simp add: frameOffsets_sample spectrumAt_sample)
  then show ?thesis using final run by (auto simp: bandEnergies_NaN)
qed



section \<open>The balance of a run\<close>








end
